theory Spec2Isabelle
  imports Complex_Main "HOL-Library.Word"
begin

section \<open>Shared INDI vocabulary\<close>

text \<open>
  The drivers of this repository talk to a device through a driver object or a serial
  port and to clients through properties. Both ends are outside the modelled code, so
  every model below carries three lists: the device calls made so far (\<open>sent\<close>), the
  properties published so far (\<open>pubs\<close>), and the answers the device will give to the
  next calls (\<open>replies\<close>; a call made when the list is empty times out and fails).
\<close>

datatype IPState = IPS_IDLE | IPS_OK | IPS_BUSY | IPS_ALERT

datatype ISState = ISS_OFF | ISS_ON

datatype TelescopeStatus =
  SCOPE_IDLE | SCOPE_SLEWING | SCOPE_TRACKING | SCOPE_PARKING | SCOPE_PARKED

datatype TelescopeMotionCommand = MOTION_START | MOTION_STOP

datatype INDI_DIR_NS = DIRECTION_NORTH | DIRECTION_SOUTH

datatype INDI_DIR_WE = DIRECTION_WEST | DIRECTION_EAST

datatype TelescopeCapability =
  TELESCOPE_CAN_GOTO | TELESCOPE_CAN_SYNC | TELESCOPE_CAN_PARK | TELESCOPE_CAN_ABORT
  | TELESCOPE_HAS_TIME | TELESCOPE_HAS_LOCATION | TELESCOPE_HAS_PIER_SIDE
  | TELESCOPE_HAS_TRACK_MODE | TELESCOPE_CAN_CONTROL_TRACK | TELESCOPE_HAS_TRACK_RATE
  | TELESCOPE_CAN_HOME_FIND | TELESCOPE_CAN_HOME_SET | TELESCOPE_CAN_HOME_GO

section \<open>The iEQ Pro mount driver (src/drivers/telescope/ieqpro.cpp)\<close>

subsection \<open>Types of the iEQ driver library\<close>

datatype GPSStatus = GPS_OFF | GPS_ON | GPS_DATA_OK

datatype SystemStatus =
  ST_STOPPED | ST_TRACKING_PEC_OFF | ST_SLEWING | ST_GUIDING | ST_MERIDIAN_FLIPPING
  | ST_TRACKING_PEC_ON | ST_PARKED | ST_HOME

datatype TrackRate = TR_SIDEREAL | TR_LUNAR | TR_SOLAR | TR_KING | TR_CUSTOM

datatype TimeSource = TS_RS232 | TS_CONTROLLER | TS_GPS

datatype Hemisphere = HEMI_SOUTH | HEMI_NORTH

datatype IEQ_DIRECTION = IEQ_N | IEQ_S | IEQ_W | IEQ_E

datatype IEQ_PIER_SIDE = IEQ_PIER_UNKNOWN | IEQ_PIER_WEST | IEQ_PIER_EAST | IEQ_PIER_UNCERTAIN

datatype TelescopePierSide = PIER_UNKNOWN | PIER_WEST | PIER_EAST

record Info =
  gpsStatus :: GPSStatus
  systemStatus :: SystemStatus
  trackRate :: TrackRate
  timeSource :: TimeSource
  hemisphere :: Hemisphere
  longitude :: real
  latitude :: real

text \<open>The methods of \<open>iEQ::Base\<close> that the driver calls, with their arguments.\<close>

datatype ieq_cmd =
  InitCommunication
  | IsCommandSupported string
  | GetFirmwareInfo
  | GetGuideRate
  | GetUTCDateTime
  | GetStatus
  | GetPierSide
  | GetCoords
  | SetRA real
  | SetDE real
  | SlewCmd
  | AbortCmd
  | SetParkAz real
  | SetParkAlt real
  | ParkCmd
  | UnparkCmd
  | StartMotion IEQ_DIRECTION
  | StopMotion IEQ_DIRECTION
  | StartGuide IEQ_DIRECTION "32 word"
  | SetTrackMode int
  | SetCustomRATrackRate
  | SetTrackEnabledCmd bool

text \<open>
  What the device answers: \<open>R_OK\<close> is a call that returned true, \<open>R_FAIL\<close> one that
  returned false; the other constructors are successful calls that fill an out-parameter.
\<close>

datatype ieq_reply =
  R_OK
  | R_FAIL
  | R_STATUS Info
  | R_PIER IEQ_PIER_SIDE
  | R_COORDS real real

datatype ieq_prop =
  FirmwareTP | GuideRateNP | TimeTP | LocationNP | GPSStatusSP | TimeSourceSP
  | HemisphereSP | TrackModeSP

record IEQPro =
  TrackState :: TelescopeStatus
  canParkNatively :: bool
  canFindHome :: bool
  canGuideRate :: bool
  capability :: "TelescopeCapability set"
  slewDirty :: bool
  IsParked :: bool
  scopeInfo :: Info
  targetRA :: real
  targetDEC :: real
  currentRA :: real
  currentDEC :: real
  Axis1Park :: real
  Axis2Park :: real
  GPSStatusS :: "GPSStatus \<Rightarrow> ISState"
  TimeSourceS :: "TimeSource \<Rightarrow> ISState"
  HemisphereS :: "Hemisphere \<Rightarrow> ISState"
  TrackModeS :: "TrackRate \<Rightarrow> ISState"
  TrackModeSP_s :: IPState
  lastPierSide :: TelescopePierSide
  LocationLat :: real
  LocationLong :: real
  Axis1ParkDefault :: real
  Axis2ParkDefault :: real
  defined :: "ieq_prop set"
  slept_ms :: nat
  sent :: "ieq_cmd list"
  pubs :: "ieq_prop list"
  replies :: "ieq_reply list"

subsection \<open>Calls into the driver library\<close>

text \<open>A call whose only result is a bool: it is logged, and it succeeds on \<open>R_OK\<close>.\<close>

definition driver_bool :: "ieq_cmd \<Rightarrow> IEQPro \<Rightarrow> bool \<times> IEQPro" where
  "driver_bool c s =
     (case replies s of
        [] \<Rightarrow> (False, s\<lparr>sent := sent s @ [c]\<rparr>)
      | r # rs \<Rightarrow> (r = R_OK, s\<lparr>sent := sent s @ [c], replies := rs\<rparr>))"

text \<open>\<open>driver->getStatus(&info)\<close>: on success the status read, otherwise nothing is written.\<close>

definition driver_getStatus :: "IEQPro \<Rightarrow> Info option \<times> IEQPro" where
  "driver_getStatus s =
     (case replies s of
        [] \<Rightarrow> (None, s\<lparr>sent := sent s @ [GetStatus]\<rparr>)
      | r # rs \<Rightarrow>
          ((case r of R_STATUS i \<Rightarrow> Some i | _ \<Rightarrow> None),
           s\<lparr>sent := sent s @ [GetStatus], replies := rs\<rparr>))"

definition driver_getPierSide :: "IEQPro \<Rightarrow> IEQ_PIER_SIDE option \<times> IEQPro" where
  "driver_getPierSide s =
     (case replies s of
        [] \<Rightarrow> (None, s\<lparr>sent := sent s @ [GetPierSide]\<rparr>)
      | r # rs \<Rightarrow>
          ((case r of R_PIER p \<Rightarrow> Some p | _ \<Rightarrow> None),
           s\<lparr>sent := sent s @ [GetPierSide], replies := rs\<rparr>))"

definition driver_getCoords :: "IEQPro \<Rightarrow> (real \<times> real) option \<times> IEQPro" where
  "driver_getCoords s =
     (case replies s of
        [] \<Rightarrow> (None, s\<lparr>sent := sent s @ [GetCoords]\<rparr>)
      | r # rs \<Rightarrow>
          ((case r of R_COORDS ra de \<Rightarrow> Some (ra, de) | _ \<Rightarrow> None),
           s\<lparr>sent := sent s @ [GetCoords], replies := rs\<rparr>))"

definition publish :: "ieq_prop \<Rightarrow> IEQPro \<Rightarrow> IEQPro" where
  "publish p s = s\<lparr>pubs := pubs s @ [p]\<rparr>"

text \<open>
  Modelled from the spec: \<open>INDI::Telescope::SetParked\<close> and \<open>isParked\<close> belong to the
  telescope base class, which is not among the sources. The spec says of them that the
  park flag is persisted; the model keeps the flag in \<open>IsParked\<close>.
\<close>

definition SetParked :: "bool \<Rightarrow> IEQPro \<Rightarrow> IEQPro" where
  "SetParked b s = s\<lparr>IsParked := b\<rparr>"

definition isParked :: "IEQPro \<Rightarrow> bool" where
  "isParked s = IsParked s"

definition HasPierSide :: "IEQPro \<Rightarrow> bool" where
  "HasPierSide s = (TELESCOPE_HAS_PIER_SIDE \<in> capability s)"

subsection \<open>Motion commands\<close>

definition ieq_dir_ns :: "INDI_DIR_NS \<Rightarrow> IEQ_DIRECTION" where
  "ieq_dir_ns dir = (if dir = DIRECTION_NORTH then IEQ_N else IEQ_S)"

definition ieq_dir_we :: "INDI_DIR_WE \<Rightarrow> IEQ_DIRECTION" where
  "ieq_dir_we dir = (if dir = DIRECTION_WEST then IEQ_W else IEQ_E)"

definition MoveNS :: "INDI_DIR_NS \<Rightarrow> TelescopeMotionCommand \<Rightarrow> IEQPro \<Rightarrow> bool \<times> IEQPro" where
  "MoveNS dir command s =
     (if TrackState s = SCOPE_PARKED then (False, s)
      else case command of
             MOTION_START \<Rightarrow> driver_bool (StartMotion (ieq_dir_ns dir)) s
           | MOTION_STOP \<Rightarrow> driver_bool (StopMotion (ieq_dir_ns dir)) s)"

definition MoveWE :: "INDI_DIR_WE \<Rightarrow> TelescopeMotionCommand \<Rightarrow> IEQPro \<Rightarrow> bool \<times> IEQPro" where
  "MoveWE dir command s =
     (if TrackState s = SCOPE_PARKED then (False, s)
      else case command of
             MOTION_START \<Rightarrow> driver_bool (StartMotion (ieq_dir_we dir)) s
           | MOTION_STOP \<Rightarrow> driver_bool (StopMotion (ieq_dir_we dir)) s)"

text \<open>
  The loop of \<open>Goto\<close> that waits for the mount to report slewing: \<open>n\<close> polls remain,
  \<open>newInfo\<close> is the local the polls write into. A poll that does not end the loop is
  followed by a sleep of 100 ms.
\<close>

fun wait_slewing :: "nat \<Rightarrow> Info \<Rightarrow> IEQPro \<Rightarrow> Info \<times> IEQPro" where
  "wait_slewing 0 newInfo s = (newInfo, s)"
| "wait_slewing (Suc n) newInfo s =
     (case driver_getStatus s of
        (Some i, s1) \<Rightarrow>
          if systemStatus i = ST_SLEWING then (i, s1)
          else wait_slewing n i (s1\<lparr>slept_ms := slept_ms s1 + 100\<rparr>)
      | (None, s1) \<Rightarrow> wait_slewing n newInfo (s1\<lparr>slept_ms := slept_ms s1 + 100\<rparr>))"

text \<open>
  \<open>Goto\<close> declares \<open>iEQ::Base::Info newInfo;\<close> without an initialiser and tests
  \<open>newInfo.systemStatus\<close> after the loop whether or not a poll has written it. The
  content the local starts with is therefore an argument, \<open>uninit\<close>.
\<close>

definition Goto :: "Info \<Rightarrow> real \<Rightarrow> real \<Rightarrow> IEQPro \<Rightarrow> bool \<times> IEQPro" where
  "Goto uninit r d s =
     (let s0 = s\<lparr>targetRA := r, targetDEC := d\<rparr>;
          (okRA, s1) = driver_bool (SetRA r) s0
      in if \<not> okRA then (False, s1)
         else let (okDE, s2) = driver_bool (SetDE d) s1
              in if \<not> okDE then (False, s2)
                 else let (okSlew, s3) = driver_bool SlewCmd s2
                      in if \<not> okSlew then (False, s3)
                         else let (newInfo, s4) = wait_slewing 5 uninit s3
                              in if systemStatus newInfo = ST_SLEWING
                                 then (True, s4\<lparr>TrackState := SCOPE_SLEWING\<rparr>)
                                 else (False, s4))"

text \<open>
  \<open>Park\<close>: \<open>h2e\<close> stands for \<open>INDI::HorizontalToEquatorial\<close> at the site and the current
  time, a function of the coordinate library that takes (azimuth, altitude) to
  (right ascension, declination).
\<close>

definition Park :: "(real \<times> real \<Rightarrow> real \<times> real) \<Rightarrow> Info \<Rightarrow> IEQPro \<Rightarrow> bool \<times> IEQPro" where
  "Park h2e uninit s =
     (let parkAz = Axis1Park s; parkAlt = Axis2Park s
      in if canParkNatively s
         then let (okAz, s1) = driver_bool (SetParkAz parkAz) s
              in if \<not> okAz then (False, s1)
                 else let (okAlt, s2) = driver_bool (SetParkAlt parkAlt) s1
                      in if \<not> okAlt then (False, s2)
                         else let (okPark, s3) = driver_bool ParkCmd s2
                              in if okPark then (True, s3\<lparr>TrackState := SCOPE_PARKING\<rparr>)
                                 else (False, s3)
         else let (ra, de) = h2e (parkAz, parkAlt);
                  (ok, s1) = Goto uninit ra de s
              in if ok then (True, s1\<lparr>TrackState := SCOPE_PARKING, slewDirty := False\<rparr>)
                 else (False, s1))"

definition UnPark :: "IEQPro \<Rightarrow> bool \<times> IEQPro" where
  "UnPark s =
     (if canParkNatively s
      then let (ok, s1) = driver_bool UnparkCmd s
           in if \<not> ok then (False, s1)
              else (True, (SetParked False s1)\<lparr>TrackState := SCOPE_IDLE\<rparr>)
      else (True, (SetParked False s)\<lparr>TrackState := SCOPE_IDLE\<rparr>))"

subsection \<open>Guide pulses\<close>

definition ips_of_rc :: "bool \<Rightarrow> IPState" where
  "ips_of_rc rc = (if rc then IPS_OK else IPS_ALERT)"

definition GuideNorth :: "32 word \<Rightarrow> IEQPro \<Rightarrow> IPState \<times> IEQPro" where
  "GuideNorth ms s = (let (rc, s1) = driver_bool (StartGuide IEQ_N ms) s in (ips_of_rc rc, s1))"

definition GuideSouth :: "32 word \<Rightarrow> IEQPro \<Rightarrow> IPState \<times> IEQPro" where
  "GuideSouth ms s = (let (rc, s1) = driver_bool (StartGuide IEQ_S ms) s in (ips_of_rc rc, s1))"

definition GuideEast :: "32 word \<Rightarrow> IEQPro \<Rightarrow> IPState \<times> IEQPro" where
  "GuideEast ms s = (let (rc, s1) = driver_bool (StartGuide IEQ_E ms) s in (ips_of_rc rc, s1))"

definition GuideWest :: "32 word \<Rightarrow> IEQPro \<Rightarrow> IPState \<times> IEQPro" where
  "GuideWest ms s = (let (rc, s1) = driver_bool (StartGuide IEQ_W ms) s in (ips_of_rc rc, s1))"

subsection \<open>Tracking on and off\<close>

text \<open>
  \<open>TrackModeSP.findOnSwitchIndex()\<close>: the position of the first member that is on, in
  the order in which \<open>initProperties\<close> adds the track modes, or -1.
\<close>

fun findOnSwitchIndex :: "('a \<Rightarrow> ISState) \<Rightarrow> 'a list \<Rightarrow> int" where
  "findOnSwitchIndex f [] = -1"
| "findOnSwitchIndex f (x # xs) =
     (if f x = ISS_ON then 0
      else let r = findOnSwitchIndex f xs in if r < 0 then -1 else r + 1)"

definition track_modes :: "TrackRate list" where
  "track_modes = [TR_SIDEREAL, TR_LUNAR, TR_SOLAR, TR_KING, TR_CUSTOM]"

text \<open>\<open>SetTrackMode\<close> takes a \<open>uint8_t\<close>, so the index is reduced modulo 256.\<close>

definition SetTrackMode :: "int \<Rightarrow> IEQPro \<Rightarrow> bool \<times> IEQPro" where
  "SetTrackMode mode s = driver_bool (ieq_cmd.SetTrackMode (mode mod 256)) s"

definition SetTrackRate :: "IEQPro \<Rightarrow> bool \<times> IEQPro" where
  "SetTrackRate s = driver_bool SetCustomRATrackRate s"

definition SetTrackEnabled :: "bool \<Rightarrow> IEQPro \<Rightarrow> bool \<times> IEQPro" where
  "SetTrackEnabled enabled s =
     (let s1 = (if enabled
                then let s' = snd (SetTrackMode (findOnSwitchIndex (TrackModeS s) track_modes) s)
                     in if TrackModeS s' TR_CUSTOM = ISS_ON then snd (SetTrackRate s') else s'
                else s)
      in driver_bool (SetTrackEnabledCmd enabled) s1)"

subsection \<open>The status poll\<close>

text \<open>
  Modelled from the spec: \<open>setPierSide\<close> and \<open>NewRaDec\<close> belong to the telescope base
  class, which is not among the sources. The model records the values handed to them;
  what the base class publishes is not counted.
\<close>

definition setPierSide :: "TelescopePierSide \<Rightarrow> IEQPro \<Rightarrow> IEQPro" where
  "setPierSide tps s = s\<lparr>lastPierSide := tps\<rparr>"

definition NewRaDec :: "real \<Rightarrow> real \<Rightarrow> IEQPro \<Rightarrow> IEQPro" where
  "NewRaDec ra de s = s\<lparr>currentRA := ra, currentDEC := de\<rparr>"

text \<open>The \<open>switch (newInfo.systemStatus)\<close> of \<open>ReadScopeStatus\<close>.\<close>

definition status_switch :: "SystemStatus \<Rightarrow> IEQPro \<Rightarrow> IEQPro" where
  "status_switch st s =
     (if st = ST_STOPPED then
        (let s1 = s\<lparr>TrackModeSP_s := IPS_IDLE\<rparr>
         in if canParkNatively s1 \<or> TrackState s1 \<noteq> SCOPE_PARKED
            then s1\<lparr>TrackState := SCOPE_IDLE\<rparr> else s1)
      else if st = ST_PARKED then
        (let s1 = s\<lparr>TrackModeSP_s := IPS_IDLE, TrackState := SCOPE_PARKED\<rparr>
         in if \<not> isParked s1 then SetParked True s1 else s1)
      else if st = ST_HOME then
        s\<lparr>TrackModeSP_s := IPS_IDLE, TrackState := SCOPE_IDLE\<rparr>
      else if st = ST_SLEWING \<or> st = ST_MERIDIAN_FLIPPING then
        (let s1 = s\<lparr>slewDirty := True\<rparr>
         in if TrackState s1 \<noteq> SCOPE_SLEWING \<and> TrackState s1 \<noteq> SCOPE_PARKING
            then s1\<lparr>TrackState := SCOPE_SLEWING\<rparr> else s1)
      else
        (if TrackState s = SCOPE_PARKING \<and> canParkNatively s = False
         then (if slewDirty s
               then let s1 = s\<lparr>TrackModeSP_s := IPS_IDLE, TrackState := SCOPE_PARKED\<rparr>;
                        s2 = snd (SetTrackEnabled False s1);
                        s3 = SetParked True s2
                    in s3\<lparr>slewDirty := False\<rparr>
               else s)
         else s\<lparr>TrackModeSP_s := IPS_BUSY, TrackState := SCOPE_TRACKING\<rparr>))"

definition only_on :: "'a \<Rightarrow> 'a \<Rightarrow> ISState" where
  "only_on x = (\<lambda>y. if y = x then ISS_ON else ISS_OFF)"

definition apply_status :: "Info \<Rightarrow> IEQPro \<Rightarrow> IEQPro" where
  "apply_status newInfo s =
     (let s1 = publish GPSStatusSP (s\<lparr>GPSStatusS := only_on (gpsStatus newInfo)\<rparr>);
          s2 = publish TimeSourceSP (s1\<lparr>TimeSourceS := only_on (timeSource newInfo)\<rparr>);
          s3 = publish HemisphereSP (s2\<lparr>HemisphereS := only_on (hemisphere newInfo)\<rparr>);
          s4 = status_switch (systemStatus newInfo) s3;
          s5 = publish TrackModeSP (s4\<lparr>TrackModeS := only_on (trackRate newInfo)\<rparr>)
      in s5\<lparr>scopeInfo := newInfo\<rparr>)"

definition tps_of :: "IEQ_PIER_SIDE \<Rightarrow> TelescopePierSide" where
  "tps_of p = (case p of IEQ_PIER_UNKNOWN \<Rightarrow> PIER_UNKNOWN | IEQ_PIER_UNCERTAIN \<Rightarrow> PIER_UNKNOWN
               | IEQ_PIER_EAST \<Rightarrow> PIER_EAST | IEQ_PIER_WEST \<Rightarrow> PIER_WEST)"

text \<open>The two blocks that end \<open>ReadScopeStatus\<close>: the pier side and the coordinates.\<close>

definition read_pier_side :: "IEQPro \<Rightarrow> IEQPro" where
  "read_pier_side s =
     (if HasPierSide s
      then (case driver_getPierSide s of
              (Some p, t) \<Rightarrow> setPierSide (tps_of p) t
            | (None, t) \<Rightarrow> t)
      else s)"

definition read_coords :: "IEQPro \<Rightarrow> bool \<times> IEQPro" where
  "read_coords s =
     (case driver_getCoords s of
        (Some (ra, de), t) \<Rightarrow> (True, NewRaDec ra de (t\<lparr>currentRA := ra, currentDEC := de\<rparr>))
      | (None, t) \<Rightarrow> (False, t))"

definition ReadScopeStatus :: "IEQPro \<Rightarrow> bool \<times> IEQPro" where
  "ReadScopeStatus s =
     (let (st, s1) = driver_getStatus s;
          s2 = (case st of Some newInfo \<Rightarrow> apply_status newInfo s1 | None \<Rightarrow> s1)
      in read_coords (read_pier_side s2))"

subsection \<open>Connection setup\<close>

definition Handshake :: "IEQPro \<Rightarrow> bool \<times> IEQPro" where
  "Handshake s =
     (let (ok, s1) = driver_bool InitCommunication s
      in if \<not> ok then (False, s1)
         else let (mp1, s2) = driver_bool (IsCommandSupported ''MP1'') s1;
                  (msh, s3) = driver_bool (IsCommandSupported ''MSH'') s2;
                  (rg, s4) = driver_bool (IsCommandSupported ''RG'') s3
              in (True, s4\<lparr>canParkNatively := mp1, canFindHome := msh, canGuideRate := rg\<rparr>))"

text \<open>
  \<open>getStartupData\<close>. Two inputs come from the configuration store, which is outside the
  sources: \<open>cfg\<close> is the saved site (longitude, latitude) if there is one, \<open>initPark\<close> is
  the result of \<open>InitPark()\<close>. The texts and numbers copied into the firmware, guide-rate
  and time properties are not kept; their publications are.
\<close>

definition park_defaults :: "bool \<Rightarrow> IEQPro \<Rightarrow> IEQPro" where
  "park_defaults initPark s =
     (let az = (if LocationLat s \<ge> 0 then 0 else 180); alt = LocationLat s
      in if initPark then s\<lparr>Axis1ParkDefault := az, Axis2ParkDefault := alt\<rparr>
         else s\<lparr>Axis1Park := az, Axis2Park := alt, Axis1ParkDefault := az, Axis2ParkDefault := alt\<rparr>)"

definition getStartupData :: "(real \<times> real) option \<Rightarrow> bool \<Rightarrow> IEQPro \<Rightarrow> IEQPro" where
  "getStartupData cfg initPark s =
     (let s1 = publish FirmwareTP (snd (driver_bool GetFirmwareInfo s));
          (gr, s2) = driver_bool GetGuideRate s1;
          s3 = (if gr then publish GuideRateNP s2 else s2);
          (utc, s4) = driver_bool GetUTCDateTime s3;
          s5 = (if utc then publish TimeTP s4 else s4);
          (st, s6) = driver_getStatus s5;
          s7 = (case st of
                  Some i \<Rightarrow>
                    publish LocationNP
                      (s6\<lparr>scopeInfo := i, LocationLat := latitude i,
                          LocationLong := (if longitude i < 0 then longitude i + 360 else longitude i)\<rparr>)
                | None \<Rightarrow>
                    (case cfg of
                       Some (lng, lat) \<Rightarrow> publish LocationNP (s6\<lparr>LocationLat := lat, LocationLong := lng\<rparr>)
                     | None \<Rightarrow> s6));
          s8 = park_defaults initPark s7;
          (pier, s9) = driver_getPierSide s8
      in if pier \<noteq> None \<and> pier \<noteq> Some IEQ_PIER_UNKNOWN
         then s9\<lparr>capability := insert TELESCOPE_HAS_PIER_SIDE (capability s9)\<rparr>
         else s9)"

text \<open>
  \<open>updateProperties\<close>, for the device's own properties: connected, it reads the startup
  data and defines them; disconnected, it deletes them.
\<close>

definition updateProperties :: "bool \<Rightarrow> (real \<times> real) option \<Rightarrow> bool \<Rightarrow> IEQPro \<Rightarrow> IEQPro" where
  "updateProperties isConnected cfg initPark s =
     (if isConnected
      then let s1 = getStartupData cfg initPark s
           in s1\<lparr>defined := defined s1
                    \<union> (if canGuideRate s1 then {GuideRateNP} else {})
                    \<union> {FirmwareTP, GPSStatusSP, TimeSourceSP, HemisphereSP}\<rparr>
      else s\<lparr>defined := defined s
                - (if canGuideRate s then {GuideRateNP} else {})
                - {FirmwareTP, GPSStatusSP, TimeSourceSP, HemisphereSP}\<rparr>)"

section \<open>The guider interface (src/libs/indibase/indiguiderinterface.cpp)\<close>

record INumber =
  nname :: string
  nvalue :: real
  nmin :: real
  nmax :: real

text \<open>A number property of two members, as \<open>INDI::PropertyNumber GuideNSNP {2}\<close>.\<close>

record PropertyNumber =
  pname :: string
  member0 :: INumber
  member1 :: INumber
  pstate :: IPState

definition fill_number :: "string \<Rightarrow> real \<Rightarrow> real \<Rightarrow> real \<Rightarrow> INumber" where
  "fill_number n lo hi v = \<lparr>nname = n, nvalue = v, nmin = lo, nmax = hi\<rparr>"

text \<open>\<open>initProperties\<close>: both members run from 0 to 60000 ms and start at 0.\<close>

definition init_GuideNSNP :: PropertyNumber where
  "init_GuideNSNP =
     \<lparr>pname = ''TELESCOPE_TIMED_GUIDE_NS'',
      member0 = fill_number ''TIMED_GUIDE_N'' 0 60000 0,
      member1 = fill_number ''TIMED_GUIDE_S'' 0 60000 0,
      pstate = IPS_IDLE\<rparr>"

definition init_GuideWENP :: PropertyNumber where
  "init_GuideWENP =
     \<lparr>pname = ''TELESCOPE_TIMED_GUIDE_WE'',
      member0 = fill_number ''TIMED_GUIDE_W'' 0 60000 0,
      member1 = fill_number ''TIMED_GUIDE_E'' 0 60000 0,
      pstate = IPS_IDLE\<rparr>"

text \<open>
  Modelled from the spec: \<open>PropertyNumber::update\<close> belongs to the property store, which
  is not among the sources. The spec has the engine validate the proposed values against
  the member bounds (valid is min \<le> v \<le> max) and stage them into the member values
  without publishing. The members are found by name; a request with an unknown name or a
  value out of bounds changes nothing.
\<close>

definition find_member :: "PropertyNumber \<Rightarrow> string \<Rightarrow> INumber option" where
  "find_member p n =
     (if n = nname (member0 p) then Some (member0 p)
      else if n = nname (member1 p) then Some (member1 p) else None)"

definition valid_pair :: "PropertyNumber \<Rightarrow> string \<times> real \<Rightarrow> bool" where
  "valid_pair p nv =
     (case find_member p (fst nv) of
        None \<Rightarrow> False
      | Some m \<Rightarrow> nmin m \<le> snd nv \<and> snd nv \<le> nmax m)"

definition set_member :: "PropertyNumber \<Rightarrow> string \<times> real \<Rightarrow> PropertyNumber" where
  "set_member p nv =
     (if fst nv = nname (member0 p) then p\<lparr>member0 := (member0 p)\<lparr>nvalue := snd nv\<rparr>\<rparr>
      else if fst nv = nname (member1 p) then p\<lparr>member1 := (member1 p)\<lparr>nvalue := snd nv\<rparr>\<rparr>
      else p)"

definition update_number :: "real list \<Rightarrow> string list \<Rightarrow> PropertyNumber \<Rightarrow> PropertyNumber" where
  "update_number vals names p =
     (let req = zip names vals
      in if list_all (valid_pair p) req then foldl set_member p req else p)"

text \<open>
  The conversion of a \<open>double\<close> to the \<open>uint32_t\<close> of the pulse callback drops the
  fraction, rounding toward zero. (For a value that after rounding lies outside
  0 .. 2^32 - 1 the C++ conversion is undefined; the model wraps.)
\<close>

definition to_uint32 :: "real \<Rightarrow> 32 word" where
  "to_uint32 v = word_of_int (if 0 \<le> v then \<lfloor>v\<rfloor> else \<lceil>v\<rceil>)"

datatype guider_prop = GuideNSNP | GuideWENP

text \<open>
  The interface with its two properties; \<open>dev\<close> is the state of the device that the
  pulse callbacks \<open>m_GuideNSFP\<close> and \<open>m_GuideWEFP\<close> act on.
\<close>

record 'd GuiderInterface =
  GuideNS :: PropertyNumber
  GuideWE :: PropertyNumber
  gpubs :: "guider_prop list"
  dev :: 'd

text \<open>
  \<open>ISNewNumber\<close>. \<open>values[0]\<close> is read only in the branches that issue a pulse; read
  from an empty array it is out of bounds, which is the result \<open>None\<close>.
\<close>

definition ISNewNumber ::
  "(INDI_DIR_NS \<Rightarrow> 32 word \<Rightarrow> 'd \<Rightarrow> IPState \<times> 'd) \<Rightarrow> (INDI_DIR_WE \<Rightarrow> 32 word \<Rightarrow> 'd \<Rightarrow> IPState \<times> 'd)
   \<Rightarrow> string \<Rightarrow> real list \<Rightarrow> string list \<Rightarrow> 'd GuiderInterface
   \<Rightarrow> (bool \<times> 'd GuiderInterface) option" where
  "ISNewNumber m_GuideNSFP m_GuideWEFP name vals names g =
     (if name = pname (GuideNS g) then
        (let p = update_number vals names (GuideNS g)
         in if nvalue (member0 p) \<noteq> 0 then
              (case vals of
                 [] \<Rightarrow> None
               | v0 # _ \<Rightarrow>
                   let p1 = p\<lparr>member1 := (member1 p)\<lparr>nvalue := 0\<rparr>\<rparr>;
                       (st, d) = m_GuideNSFP DIRECTION_NORTH (to_uint32 v0) (dev g)
                   in Some (True, g\<lparr>GuideNS := p1\<lparr>pstate := st\<rparr>, dev := d,
                                    gpubs := gpubs g @ [GuideNSNP]\<rparr>))
            else if nvalue (member1 p) \<noteq> 0 then
              (case vals of
                 [] \<Rightarrow> None
               | v0 # _ \<Rightarrow>
                   let (st, d) = m_GuideNSFP DIRECTION_SOUTH (to_uint32 v0) (dev g)
                   in Some (True, g\<lparr>GuideNS := p\<lparr>pstate := st\<rparr>, dev := d,
                                    gpubs := gpubs g @ [GuideNSNP]\<rparr>))
            else Some (True, g\<lparr>GuideNS := p, gpubs := gpubs g @ [GuideNSNP]\<rparr>))
      else if name = pname (GuideWE g) then
        (let p = update_number vals names (GuideWE g)
         in if nvalue (member0 p) \<noteq> 0 then
              (case vals of
                 [] \<Rightarrow> None
               | v0 # _ \<Rightarrow>
                   let p1 = p\<lparr>member1 := (member1 p)\<lparr>nvalue := 0\<rparr>\<rparr>;
                       (st, d) = m_GuideWEFP DIRECTION_WEST (to_uint32 v0) (dev g)
                   in Some (True, g\<lparr>GuideWE := p1\<lparr>pstate := st\<rparr>, dev := d,
                                    gpubs := gpubs g @ [GuideWENP]\<rparr>))
            else if nvalue (member1 p) \<noteq> 0 then
              (case vals of
                 [] \<Rightarrow> None
               | v0 # _ \<Rightarrow>
                   let (st, d) = m_GuideWEFP DIRECTION_EAST (to_uint32 v0) (dev g)
                   in Some (True, g\<lparr>GuideWE := p\<lparr>pstate := st\<rparr>, dev := d,
                                    gpubs := gpubs g @ [GuideWENP]\<rparr>))
            else Some (True, g\<lparr>GuideWE := p, gpubs := gpubs g @ [GuideWENP]\<rparr>))
      else Some (False, g))"

text \<open>Pulse callbacks that record the pulses they are asked for and complete at once.\<close>

type_synonym pulse_log = "((INDI_DIR_NS + INDI_DIR_WE) \<times> 32 word) list"

definition log_ns :: "INDI_DIR_NS \<Rightarrow> 32 word \<Rightarrow> pulse_log \<Rightarrow> IPState \<times> pulse_log" where
  "log_ns dir ms pulses = (IPS_OK, pulses @ [(Inl dir, ms)])"

definition log_we :: "INDI_DIR_WE \<Rightarrow> 32 word \<Rightarrow> pulse_log \<Rightarrow> IPState \<times> pulse_log" where
  "log_we dir ms pulses = (IPS_OK, pulses @ [(Inr dir, ms)])"

section \<open>The Deep Sky Dad flap panel (src/drivers/auxiliary/deepskydad_fp.cpp)\<close>

datatype dsd_cmd = GMOV | GLON | GOPS | GPOS | GHTT | GHTM | SHTM int

datatype dsd_prop = StatusTP | ParkCapSP | LightSP | HeaterModeSP

text \<open>
  What comes back for a command. \<open>NoAnswer\<close>: \<open>sendCommand\<close> returns false (the write
  or the read failed). \<open>Number v\<close>: it returns true with a response from which
  \<open>sscanf(response, "(%d)", ...)\<close> reads the integer \<open>v\<close>. \<open>Garbled\<close>: it returns true
  with a response from which \<open>sscanf\<close> reads nothing, so that the variable it was to
  fill keeps what it held.
\<close>

datatype dsd_reply = NoAnswer | Garbled | Number int

record DeepSkyDadFP =
  isFP2 :: bool
  prevCoverStatus :: int
  prevLightStatus :: int
  prevMotorStatus :: int
  prevHeaterConnected :: int
  prevHeaterMode :: int
  StatusT :: "string list"
  ParkCapS :: "ISState list"
  ParkCapSP_s :: IPState
  LightS :: "ISState list"
  HeaterModeS :: "ISState list"
  HeaterModeSP_s :: IPState
  dsd_sent :: "dsd_cmd list"
  dsd_pubs :: "dsd_prop list"
  dsd_replies :: "dsd_reply list"

definition sendCommand :: "dsd_cmd \<Rightarrow> DeepSkyDadFP \<Rightarrow> dsd_reply \<times> DeepSkyDadFP" where
  "sendCommand c s =
     (case dsd_replies s of
        [] \<Rightarrow> (NoAnswer, s\<lparr>dsd_sent := dsd_sent s @ [c]\<rparr>)
      | r # rs \<Rightarrow> (r, s\<lparr>dsd_sent := dsd_sent s @ [c], dsd_replies := rs\<rparr>))"

definition dsd_publish :: "dsd_prop \<Rightarrow> DeepSkyDadFP \<Rightarrow> DeepSkyDadFP" where
  "dsd_publish p s = s\<lparr>dsd_pubs := dsd_pubs s @ [p]\<rparr>"

definition IUSaveText :: "nat \<Rightarrow> string \<Rightarrow> DeepSkyDadFP \<Rightarrow> DeepSkyDadFP" where
  "IUSaveText i t s = s\<lparr>StatusT := (StatusT s)[i := t]\<rparr>"

definition IUResetSwitch :: "ISState list \<Rightarrow> ISState list" where
  "IUResetSwitch sw = map (\<lambda>_. ISS_OFF) sw"

text \<open>\<open>IUFindOnSwitchIndex\<close>: the index of the first member that is on, or -1.\<close>

fun IUFindOnSwitchIndex :: "ISState list \<Rightarrow> int" where
  "IUFindOnSwitchIndex [] = -1"
| "IUFindOnSwitchIndex (x # xs) =
     (if x = ISS_ON then 0
      else let r = IUFindOnSwitchIndex xs in if r < 0 then -1 else r + 1)"

subsection \<open>The status poll\<close>

text \<open>
  \<open>sscanf(response, "(%d)", &x)\<close>, whose result the poll does not look at: \<open>x\<close> is
  overwritten when the response holds a number and left alone when it does not.
\<close>

definition scanned :: "int \<Rightarrow> dsd_reply \<Rightarrow> int" where
  "scanned x r = (case r of Number v \<Rightarrow> v | _ \<Rightarrow> x)"

text \<open>
  The five queries of \<open>getStatus\<close>; the first that \<open>sendCommand\<close> fails on ends the
  poll. The five locals are declared without initialisers, so what they hold before
  the queries is an argument, \<open>uninit\<close>, in the order motor, light, cover, heater
  temperature, heater mode.
\<close>

definition read_status ::
  "int \<times> int \<times> int \<times> int \<times> int \<Rightarrow> DeepSkyDadFP
   \<Rightarrow> (int \<times> int \<times> int \<times> int \<times> int) option \<times> DeepSkyDadFP" where
  "read_status uninit s =
     (case uninit of (motor0, light0, cover0, temperature0, mode0) \<Rightarrow>
     (case sendCommand GMOV s of
        (NoAnswer, s1) \<Rightarrow> (None, s1)
      | (r1, s1) \<Rightarrow>
     (case sendCommand GLON s1 of
        (NoAnswer, s2) \<Rightarrow> (None, s2)
      | (r2, s2) \<Rightarrow>
     (case sendCommand (if isFP2 s2 then GOPS else GPOS) s2 of
        (NoAnswer, s3) \<Rightarrow> (None, s3)
      | (r3, s3) \<Rightarrow>
     (case sendCommand GHTT s3 of
        (NoAnswer, s4) \<Rightarrow> (None, s4)
      | (r4, s4) \<Rightarrow>
     (case sendCommand GHTM s4 of
        (NoAnswer, s5) \<Rightarrow> (None, s5)
      | (r5, s5) \<Rightarrow>
          (Some (scanned motor0 r1, scanned light0 r2, scanned cover0 r3,
                 scanned temperature0 r4, scanned mode0 r5), s5)))))))"

text \<open>
  The cover has arrived: if the park property is busy or idle, member \<open>k\<close> alone is
  switched on, the property becomes OK and is published.
\<close>

definition cap_arrived :: "nat \<Rightarrow> DeepSkyDadFP \<Rightarrow> DeepSkyDadFP" where
  "cap_arrived k s =
     (if ParkCapSP_s s = IPS_BUSY \<or> ParkCapSP_s s = IPS_IDLE
      then dsd_publish ParkCapSP
             (s\<lparr>ParkCapS := (IUResetSwitch (ParkCapS s))[k := ISS_ON], ParkCapSP_s := IPS_OK\<rparr>)
      else s)"

text \<open>
  The cover section, for the FP2 and for the first model. The bool is the local
  \<open>statusUpdated\<close>.
\<close>

definition cover_fp2 :: "int \<Rightarrow> int \<Rightarrow> DeepSkyDadFP \<Rightarrow> bool \<times> DeepSkyDadFP" where
  "cover_fp2 motorStatus coverStatus s =
     (if coverStatus \<noteq> prevCoverStatus s then
        (if motorStatus = 1 then
           (False,
            if coverStatus = 0 then IUSaveText 0 ''Closed'' s
            else if coverStatus = 1 then IUSaveText 0 ''Open'' s
            else IUSaveText 0 ''Not open/closed'' s)
         else
           (let s1 = s\<lparr>prevCoverStatus := coverStatus\<rparr>
            in (True,
                if coverStatus = 1 then cap_arrived 1 (IUSaveText 0 ''Open'' s1)
                else if coverStatus = 0 then cap_arrived 0 (IUSaveText 0 ''Closed'' s1)
                else IUSaveText 0 ''Not open/closed'' s1)))
      else (False, s))"

definition cover_fp1 :: "int \<Rightarrow> int \<Rightarrow> DeepSkyDadFP \<Rightarrow> bool \<times> DeepSkyDadFP" where
  "cover_fp1 motorStatus coverStatus s =
     (if coverStatus \<noteq> prevCoverStatus s then
        (if motorStatus = 1 then
           (False,
            if coverStatus = 0 then IUSaveText 0 ''Open'' s
            else if coverStatus = 270 then IUSaveText 0 ''Closed'' s
            else IUSaveText 0 ''Not open/closed'' s)
         else
           (let s1 = s\<lparr>prevCoverStatus := coverStatus\<rparr>
            in (True,
                if coverStatus = 0 then cap_arrived 1 (IUSaveText 0 ''Open'' s1)
                else if coverStatus = 270 then cap_arrived 0 (IUSaveText 0 ''Closed'' s1)
                else IUSaveText 0 ''Not open/closed'' s1)))
      else (False, s))"

definition moving_text :: "int \<Rightarrow> DeepSkyDadFP \<Rightarrow> DeepSkyDadFP" where
  "moving_text motorStatus s = (if motorStatus = 1 then IUSaveText 0 ''Moving'' s else s)"

definition light_section :: "int \<Rightarrow> bool \<times> DeepSkyDadFP \<Rightarrow> bool \<times> DeepSkyDadFP" where
  "light_section lightStatus us =
     (let statusUpdated = fst us; s = snd us
      in if lightStatus \<noteq> prevLightStatus s then
           (let s1 = s\<lparr>prevLightStatus := lightStatus\<rparr>
            in (True,
                if lightStatus = 0 then
                  (let s2 = IUSaveText 1 ''Off'' s1
                   in dsd_publish LightSP (s2\<lparr>LightS := (LightS s2)[0 := ISS_OFF, 1 := ISS_ON]\<rparr>))
                else if lightStatus = 1 then
                  (let s2 = IUSaveText 1 ''On'' s1
                   in dsd_publish LightSP (s2\<lparr>LightS := (LightS s2)[0 := ISS_ON, 1 := ISS_OFF]\<rparr>))
                else s1))
         else (statusUpdated, s))"

definition motor_section :: "int \<Rightarrow> bool \<times> DeepSkyDadFP \<Rightarrow> bool \<times> DeepSkyDadFP" where
  "motor_section motorStatus us =
     (let statusUpdated = fst us; s = snd us
      in if motorStatus \<noteq> prevMotorStatus s then
           (let s1 = s\<lparr>prevMotorStatus := motorStatus\<rparr>
            in (True,
                if motorStatus = 0 then IUSaveText 2 ''Stopped'' s1
                else if motorStatus = 1 then IUSaveText 2 ''Running'' s1
                else s1))
         else (statusUpdated, s))"

definition status_section :: "bool \<times> DeepSkyDadFP \<Rightarrow> DeepSkyDadFP" where
  "status_section us = (if fst us then dsd_publish StatusTP (snd us) else snd us)"

definition heater_section :: "int \<Rightarrow> DeepSkyDadFP \<Rightarrow> DeepSkyDadFP" where
  "heater_section heaterTemperature s =
     (let heaterConnected = (if heaterTemperature > -40 then 1 else 0)
      in if heaterConnected \<noteq> prevHeaterConnected s then
           (let s1 = s\<lparr>prevHeaterConnected := heaterConnected\<rparr>
            in if heaterConnected = 1
               then (IUSaveText 3 ''Connected'' s1)\<lparr>HeaterModeSP_s := IPS_OK\<rparr>
               else IUSaveText 3 ''Disconnected'' (s1\<lparr>HeaterModeSP_s := IPS_IDLE\<rparr>))
         else s)"

definition mode_section :: "int \<Rightarrow> DeepSkyDadFP \<Rightarrow> DeepSkyDadFP" where
  "mode_section heaterMode s =
     (if heaterMode \<noteq> prevHeaterMode s then
        (let s1 = s\<lparr>prevHeaterMode := heaterMode, HeaterModeS := IUResetSwitch (HeaterModeS s)\<rparr>;
             s2 = (if heaterMode = 0 then s1\<lparr>HeaterModeS := (HeaterModeS s1)[0 := ISS_ON]\<rparr>
                   else if heaterMode = 1 then s1\<lparr>HeaterModeS := (HeaterModeS s1)[1 := ISS_ON]\<rparr>
                   else if heaterMode = 2 then s1\<lparr>HeaterModeS := (HeaterModeS s1)[2 := ISS_ON]\<rparr>
                   else s1)
         in dsd_publish HeaterModeSP s2)
      else s)"

text \<open>What \<open>getStatus\<close> does with the five values once they are read.\<close>

definition process_status :: "int \<times> int \<times> int \<times> int \<times> int \<Rightarrow> DeepSkyDadFP \<Rightarrow> DeepSkyDadFP" where
  "process_status raw s =
     (case raw of (motorStatus, lightStatus, coverStatus, heaterTemperature, heaterMode) \<Rightarrow>
        (let us0 = (if isFP2 s then cover_fp2 motorStatus coverStatus s
                    else cover_fp1 motorStatus coverStatus s);
             us1 = (fst us0, moving_text motorStatus (snd us0));
             us2 = light_section lightStatus us1;
             us3 = motor_section motorStatus us2;
             s4 = status_section us3;
             s5 = heater_section heaterTemperature s4
         in mode_section heaterMode s5))"

definition getStatus :: "int \<times> int \<times> int \<times> int \<times> int \<Rightarrow> DeepSkyDadFP \<Rightarrow> bool \<times> DeepSkyDadFP" where
  "getStatus uninit s =
     (case read_status uninit s of
        (None, s1) \<Rightarrow> (False, s1)
      | (Some raw, s1) \<Rightarrow> (True, process_status raw s1))"

subsection \<open>Switch updates\<close>

datatype ISRule = ISR_1OFMANY | ISR_ATMOST1

fun member_index :: "string list \<Rightarrow> string \<Rightarrow> nat option" where
  "member_index [] n = None"
| "member_index (x # xs) n = (if x = n then Some 0 else map_option Suc (member_index xs n))"

fun assign_switches :: "string list \<Rightarrow> (string \<times> ISState) list \<Rightarrow> ISState list \<Rightarrow> ISState list option" where
  "assign_switches names [] sw = Some sw"
| "assign_switches names (r # req) sw =
     (case member_index names (fst r) of
        None \<Rightarrow> None
      | Some i \<Rightarrow> assign_switches names req (sw[i := snd r]))"

definition count_on :: "ISState list \<Rightarrow> nat" where
  "count_on sw = length (filter (\<lambda>x. x = ISS_ON) sw)"

text \<open>
  Modelled from the spec: \<open>IUUpdateSwitch\<close> belongs to the property store, which is not
  among the sources. The spec has the update staged into the member values without
  publishing, and at most one member of such a switch set active at any time. The
  requested states are written, by member name, over the cleared members; a request
  that names an unknown member, or that would leave more than one member on (or none,
  for a one-of-many set), changes nothing.
\<close>

definition IUUpdateSwitch :: "ISRule \<Rightarrow> string list \<Rightarrow> (string \<times> ISState) list \<Rightarrow> ISState list \<Rightarrow> ISState list" where
  "IUUpdateSwitch rule names req sw =
     (case assign_switches names req (IUResetSwitch sw) of
        None \<Rightarrow> sw
      | Some sw' \<Rightarrow>
          if count_on sw' > 1 \<or> (rule = ISR_1OFMANY \<and> count_on sw' = 0) then sw else sw')"

text \<open>\<open>IUFindOnSwitchName\<close>: the name of the first requested member that is on, or null.\<close>

fun IUFindOnSwitchName :: "(string \<times> ISState) list \<Rightarrow> string option" where
  "IUFindOnSwitchName [] = None"
| "IUFindOnSwitchName (r # req) = (if snd r = ISS_ON then Some (fst r) else IUFindOnSwitchName req)"

subsection \<open>The heater mode switch\<close>

definition heater_names :: "string list" where
  "heater_names = [''OFF'', ''ON'', ''ON2'']"

text \<open>
  The branch of \<open>ISNewSwitch\<close> for the heater mode property. \<open>req\<close> is the client's
  request, member names with the requested states. Where no member was on before,
  \<open>current_mode\<close> is -1 and the roll-back writes \<open>HeaterModeS[-1]\<close>; that out-of-bounds
  write is the result \<open>None\<close>.
\<close>

definition ISNewSwitch_DSD :: "(string \<times> ISState) list \<Rightarrow> DeepSkyDadFP \<Rightarrow> (bool \<times> DeepSkyDadFP) option" where
  "ISNewSwitch_DSD req s =
     (let current_mode = IUFindOnSwitchIndex (HeaterModeS s);
          s1 = s\<lparr>HeaterModeS := IUUpdateSwitch ISR_1OFMANY heater_names req (HeaterModeS s)\<rparr>;
          target_mode = IUFindOnSwitchIndex (HeaterModeS s1)
      in if current_mode = target_mode
         then Some (True, dsd_publish HeaterModeSP (s1\<lparr>HeaterModeSP_s := IPS_OK\<rparr>))
         else (case sendCommand (SHTM target_mode) s1 of
                 (NoAnswer, s2) \<Rightarrow>
                   if 0 \<le> current_mode \<and> nat current_mode < length (HeaterModeS s2)
                   then Some (False,
                          dsd_publish HeaterModeSP
                            (s2\<lparr>HeaterModeS := (IUResetSwitch (HeaterModeS s2))[nat current_mode := ISS_ON],
                                HeaterModeSP_s := IPS_ALERT\<rparr>))
                   else None
               | (_, s2) \<Rightarrow>
                   Some (True, dsd_publish HeaterModeSP (s2\<lparr>HeaterModeSP_s := IPS_OK\<rparr>))))"

section \<open>The FS-2 mount driver (src/drivers/telescope/lx200fs2.cpp)\<close>

text \<open>The functions of the LX200 command library that the driver calls.\<close>

datatype lx_cmd = SetObjectRA real | SetObjectDEC real | LxSlew

datatype fs2_prop = EqNP | StopAfterParkSP

text \<open>The steps of the sequence that stops the motors once the mount is parked.\<close>

datatype ParkedStatus =
  PARKED_NOTPARKED | PARKED_NEEDABORT | PARKED_NEEDSTOP | PARKED_STOPPED | UNPARKED_NEEDSLEW

text \<open>A reply is the \<open>int\<close> the library function returns; a call that times out returns -1.\<close>

record LX200FS2 =
  fs2_TrackState :: TelescopeStatus
  isSimulation :: bool
  EqNP_s :: IPState
  fs2_targetRA :: real
  fs2_targetDEC :: real
  fs2_Axis1Park :: real
  fs2_Axis2Park :: real
  StopAfterParkS :: "ISState list"
  StopAfterParkSP_s :: IPState
  fs2_ParkedStatus :: ParkedStatus
  fs2_sent :: "lx_cmd list"
  fs2_pubs :: "fs2_prop list"
  fs2_replies :: "int list"

definition lx_call :: "lx_cmd \<Rightarrow> LX200FS2 \<Rightarrow> int \<times> LX200FS2" where
  "lx_call c s =
     (case fs2_replies s of
        [] \<Rightarrow> (-1, s\<lparr>fs2_sent := fs2_sent s @ [c]\<rparr>)
      | r # rs \<Rightarrow> (r, s\<lparr>fs2_sent := fs2_sent s @ [c], fs2_replies := rs\<rparr>))"

definition fs2_publish :: "fs2_prop \<Rightarrow> LX200FS2 \<Rightarrow> LX200FS2" where
  "fs2_publish p s = s\<lparr>fs2_pubs := fs2_pubs s @ [p]\<rparr>"

text \<open>
  Modelled from the spec: \<open>slewError\<close> belongs to the LX200 base class, which is not
  among the sources. The spec has every hardware-facing failure surface as the ALERT
  state of the property, published.
\<close>

definition slewError :: "int \<Rightarrow> LX200FS2 \<Rightarrow> LX200FS2" where
  "slewError slewCode s = fs2_publish EqNP (s\<lparr>EqNP_s := IPS_ALERT\<rparr>)"

definition Goto_FS2 :: "real \<Rightarrow> real \<Rightarrow> LX200FS2 \<Rightarrow> bool \<times> LX200FS2" where
  "Goto_FS2 r d s =
     (let s0 = s\<lparr>fs2_targetRA := r, fs2_targetDEC := d\<rparr>;
          slewing = (\<lambda>t. (True, t\<lparr>fs2_TrackState := SCOPE_SLEWING, EqNP_s := IPS_BUSY\<rparr>));
          alert = (\<lambda>t. fs2_publish EqNP (t\<lparr>EqNP_s := IPS_ALERT\<rparr>))
      in if \<not> isSimulation s0 then
           (let (rcRA, s1) = lx_call (SetObjectRA r) s0
            in if rcRA < 0 then (False, alert s1)
               else let (rcDE, s2) = lx_call (SetObjectDEC d) s1
                    in if rcDE < 0 then (False, alert s2)
                       else let (rcSlew, s3) = lx_call LxSlew s2
                            in if rcSlew \<noteq> 0 then (False, slewError 1 (alert s3))
                               else slewing s3)
         else slewing s0)"

definition Park_FS2 :: "(real \<times> real \<Rightarrow> real \<times> real) \<Rightarrow> LX200FS2 \<Rightarrow> bool \<times> LX200FS2" where
  "Park_FS2 h2e s =
     (let (ra, de) = h2e (fs2_Axis1Park s, fs2_Axis2Park s);
          (ok, s1) = Goto_FS2 ra de s
      in if ok then (True, s1\<lparr>fs2_TrackState := SCOPE_PARKING\<rparr>) else (False, s1))"

text \<open>
  \<open>TrackingStop_AllStop\<close>, the step that \<open>ReadScopeStatus\<close> takes when the session state
  is PARKED and the sequence stands at \<open>PARKED_NEEDSTOP\<close>. \<open>MoveWE\<close> is the motion
  command of the LX200 base class, which is not among the sources; it is an argument.
\<close>

definition TrackingStop_AllStop ::
  "(INDI_DIR_WE \<Rightarrow> TelescopeMotionCommand \<Rightarrow> LX200FS2 \<Rightarrow> bool \<times> LX200FS2) \<Rightarrow> LX200FS2 \<Rightarrow> LX200FS2" where
  "TrackingStop_AllStop moveWE s =
     (if fs2_ParkedStatus s \<noteq> PARKED_NEEDSTOP then s
      else (snd (moveWE DIRECTION_EAST MOTION_START s))\<lparr>fs2_ParkedStatus := PARKED_STOPPED\<rparr>)"

definition stop_names :: "string list" where
  "stop_names = [''ON'', ''OFF'']"

text \<open>
  The branch of \<open>ISNewSwitch\<close> for the stop-after-park property. A request with no
  member on passes a null \<open>actionName\<close> to \<open>strcmp\<close>, and a property with no member on
  is indexed at -1; both are the result \<open>None\<close>.
\<close>

definition ISNewSwitch_FS2 :: "(string \<times> ISState) list \<Rightarrow> LX200FS2 \<Rightarrow> (bool \<times> LX200FS2) option" where
  "ISNewSwitch_FS2 req s =
     (case IUFindOnSwitchName req of
        None \<Rightarrow> None
      | Some actionName \<Rightarrow>
          let currentIndex = IUFindOnSwitchIndex (StopAfterParkS s)
          in if currentIndex < 0 \<or> nat currentIndex \<ge> length stop_names then None
             else if actionName = stop_names ! nat currentIndex
             then Some (True, fs2_publish StopAfterParkSP (s\<lparr>StopAfterParkSP_s := IPS_IDLE\<rparr>))
             else let s1 = s\<lparr>StopAfterParkS := IUUpdateSwitch ISR_ATMOST1 stop_names req (StopAfterParkS s)\<rparr>;
                      currentIndex1 = IUFindOnSwitchIndex (StopAfterParkS s1)
                  in if currentIndex1 < 0 \<or> nat currentIndex1 \<ge> length stop_names then None
                     else Some (True, fs2_publish StopAfterParkSP (s1\<lparr>StopAfterParkSP_s := IPS_OK\<rparr>)))"

section \<open>Initial states\<close>

text \<open>The status the constructor of \<open>IEQPro\<close> writes into \<open>scopeInfo\<close>.\<close>

definition info_init :: Info where
  "info_init =
     \<lparr>gpsStatus = GPS_OFF, systemStatus = ST_STOPPED, trackRate = TR_SIDEREAL,
      timeSource = TS_RS232, hemisphere = HEMI_NORTH, longitude = 0, latitude = 0\<rparr>"

text \<open>
  A state of the driver before any connection: idle, not parked, no flag set, with the
  capability set of the constructor and the switch members \<open>initProperties\<close> turns on.
\<close>

definition IEQPro_init :: IEQPro where
  "IEQPro_init =
     \<lparr>TrackState = SCOPE_IDLE,
      canParkNatively = False, canFindHome = False, canGuideRate = False,
      capability =
        {TELESCOPE_CAN_PARK, TELESCOPE_CAN_SYNC, TELESCOPE_CAN_GOTO, TELESCOPE_CAN_ABORT,
         TELESCOPE_HAS_TIME, TELESCOPE_HAS_LOCATION, TELESCOPE_HAS_TRACK_MODE,
         TELESCOPE_CAN_CONTROL_TRACK, TELESCOPE_HAS_TRACK_RATE, TELESCOPE_CAN_HOME_FIND,
         TELESCOPE_CAN_HOME_SET, TELESCOPE_CAN_HOME_GO},
      slewDirty = False, IsParked = False, scopeInfo = info_init,
      targetRA = 0, targetDEC = 0, currentRA = 0, currentDEC = 90,
      Axis1Park = 0, Axis2Park = 0,
      GPSStatusS = only_on GPS_OFF, TimeSourceS = only_on TS_RS232,
      HemisphereS = only_on HEMI_NORTH, TrackModeS = only_on TR_SIDEREAL,
      TrackModeSP_s = IPS_IDLE, lastPierSide = PIER_UNKNOWN,
      LocationLat = 0, LocationLong = 0, Axis1ParkDefault = 0, Axis2ParkDefault = 0,
      defined = {}, slept_ms = 0, sent = [], pubs = [], replies = []\<rparr>"

text \<open>
  A state of the FS-2 driver before any connection; of stop-after-park the member OFF
  is on, as \<open>initProperties\<close> fills it.
\<close>

definition LX200FS2_init :: LX200FS2 where
  "LX200FS2_init =
     \<lparr>fs2_TrackState = SCOPE_IDLE, isSimulation = False, EqNP_s = IPS_IDLE,
      fs2_targetRA = 0, fs2_targetDEC = 0, fs2_Axis1Park = 0, fs2_Axis2Park = 0,
      StopAfterParkS = [ISS_OFF, ISS_ON], StopAfterParkSP_s = IPS_IDLE,
      fs2_ParkedStatus = PARKED_NOTPARKED,
      fs2_sent = [], fs2_pubs = [], fs2_replies = []\<rparr>"

text \<open>
  A state of the flap panel before its first poll: no member of any switch is on, and
  the previous status values are -1, a value no status takes.
\<close>

definition DeepSkyDadFP_init :: DeepSkyDadFP where
  "DeepSkyDadFP_init =
     \<lparr>isFP2 = False, prevCoverStatus = -1, prevLightStatus = -1, prevMotorStatus = -1,
      prevHeaterConnected = -1, prevHeaterMode = -1,
      StatusT = [[], [], [], []],
      ParkCapS = [ISS_OFF, ISS_OFF], ParkCapSP_s = IPS_IDLE,
      LightS = [ISS_OFF, ISS_OFF],
      HeaterModeS = [ISS_OFF, ISS_OFF, ISS_OFF], HeaterModeSP_s = IPS_IDLE,
      dsd_sent = [], dsd_pubs = [], dsd_replies = []\<rparr>"

text \<open>The guider interface after \<open>initProperties\<close>, over a device that logs its pulses.\<close>

definition GuiderInterface_init :: "pulse_log GuiderInterface" where
  "GuiderInterface_init =
     \<lparr>GuideNS = init_GuideNSNP, GuideWE = init_GuideWENP, gpubs = [], dev = []\<rparr>"

section \<open>Auxiliary notions for the statements\<close>

text \<open>Whether the device will accept the next call, that is answer it with \<open>R_OK\<close>.\<close>

definition accepts :: "IEQPro \<Rightarrow> bool" where
  "accepts s = (case replies s of [] \<Rightarrow> False | r # _ \<Rightarrow> r = R_OK)"

text \<open>Whether a reply is a status report, and whether it is one that reports slewing.\<close>

definition is_status :: "ieq_reply \<Rightarrow> bool" where
  "is_status r = (case r of R_STATUS i \<Rightarrow> True | _ \<Rightarrow> False)"

definition is_slewing :: "ieq_reply \<Rightarrow> bool" where
  "is_slewing r = (case r of R_STATUS i \<Rightarrow> systemStatus i = ST_SLEWING | _ \<Rightarrow> False)"

text \<open>
  Whether a cover status is one of the two values that this model of the panel reads
  as open or closed, and whether the park property is in a state in which an arrival is
  published.
\<close>

definition cover_settled :: "DeepSkyDadFP \<Rightarrow> int \<Rightarrow> bool" where
  "cover_settled s c = (if isFP2 s then c = 1 \<or> c = 0 else c = 0 \<or> c = 270)"

definition cap_waiting :: "DeepSkyDadFP \<Rightarrow> bool" where
  "cap_waiting s = (ParkCapSP_s s = IPS_BUSY \<or> ParkCapSP_s s = IPS_IDLE)"


text \<open>A switch vector of \<open>n\<close> members of which member \<open>k\<close> alone is on.\<close>

definition one_hot :: "nat \<Rightarrow> nat \<Rightarrow> ISState list" where
  "one_hot n k = (replicate n ISS_OFF)[k := ISS_ON]"

text \<open>Whether the next command sent to the flap panel will fail.\<close>

definition dsd_fails :: "DeepSkyDadFP \<Rightarrow> bool" where
  "dsd_fails s = (case dsd_replies s of [] \<Rightarrow> True | r # _ \<Rightarrow> r = NoAnswer)"

section \<open>Example runs\<close>

text \<open>
  A mount without native parking that accepts a Goto and reports slewing at once; a
  poll then reports slewing, and the next one tracking.
\<close>

definition park_run :: IEQPro where
  "park_run =
     IEQPro_init\<lparr>replies :=
       [R_OK, R_OK, R_OK, R_STATUS (info_init\<lparr>systemStatus := ST_SLEWING\<rparr>),
        R_STATUS (info_init\<lparr>systemStatus := ST_SLEWING\<rparr>), R_COORDS 1 2,
        R_STATUS (info_init\<lparr>systemStatus := ST_TRACKING_PEC_OFF\<rparr>), R_OK, R_COORDS 3 4]\<rparr>"

definition park_run1 :: IEQPro where
  "park_run1 = snd (Park id info_init park_run)"

definition park_run2 :: IEQPro where
  "park_run2 = snd (ReadScopeStatus park_run1)"

text \<open>An FS-2 whose device accepts the target and the slew.\<close>

definition fs2_run :: LX200FS2 where
  "fs2_run = LX200FS2_init\<lparr>fs2_replies := [0, 0, 0]\<rparr>"

text \<open>A parked mount whose device accepts a Goto and reports slewing.\<close>

definition parked_run :: IEQPro where
  "parked_run =
     IEQPro_init\<lparr>TrackState := SCOPE_PARKED, IsParked := True,
                 replies := [R_OK, R_OK, R_OK, R_STATUS (info_init\<lparr>systemStatus := ST_SLEWING\<rparr>)]\<rparr>"

text \<open>A mount in the middle of a slew whose device accepts the next call.\<close>

definition slewing_run :: IEQPro where
  "slewing_run = IEQPro_init\<lparr>TrackState := SCOPE_SLEWING, replies := [R_OK]\<rparr>"

text \<open>A mount that accepts a Goto and then answers no status query.\<close>

definition silent_run :: IEQPro where
  "silent_run =
     IEQPro_init\<lparr>replies := [R_OK, R_OK, R_OK, R_FAIL, R_FAIL, R_FAIL, R_FAIL, R_FAIL]\<rparr>"

text \<open>
  Two connection sessions of one driver object. In the first the mount supports all
  probed commands and reports its pier side; after the disconnect a second mount is
  connected that supports none of them and does not answer the pier side query.
\<close>

definition session1 :: IEQPro where
  "session1 =
     updateProperties True None False
       (snd (Handshake (IEQPro_init\<lparr>replies :=
          [R_OK, R_OK, R_OK, R_OK,
           R_OK, R_OK, R_OK, R_STATUS info_init, R_PIER IEQ_PIER_EAST]\<rparr>)))"

definition session1_closed :: IEQPro where
  "session1_closed = updateProperties False None False session1"

definition session2_start :: IEQPro where
  "session2_start =
     session1_closed\<lparr>replies :=
        [R_OK, R_FAIL, R_FAIL, R_FAIL,
         R_OK, R_FAIL, R_FAIL, R_STATUS info_init, R_FAIL]\<rparr>"

definition session2 :: IEQPro where
  "session2 = updateProperties True None True (snd (Handshake session2_start))"

text \<open>The flap panel before two polls that read the given raw values.\<close>

definition dsd_two_polls :: "int list \<Rightarrow> int list \<Rightarrow> DeepSkyDadFP" where
  "dsd_two_polls raw1 raw2 = DeepSkyDadFP_init\<lparr>dsd_replies := map Number (raw1 @ raw2)\<rparr>"


text \<open>An FS-2 whose stop-after-park property is OK, with its member OFF on.\<close>

definition fs2_ok :: LX200FS2 where
  "fs2_ok = LX200FS2_init\<lparr>StopAfterParkSP_s := IPS_OK\<rparr>"

text \<open>A flap panel with the heater mode ON selected, whose next command fails.\<close>

definition dsd_heater_on :: DeepSkyDadFP where
  "dsd_heater_on = DeepSkyDadFP_init\<lparr>HeaterModeS := one_hot 3 1, dsd_replies := [NoAnswer]\<rparr>"

section \<open>Properties of the iEQ Pro driver\<close>

lemma driver_bool_fst: "fst (driver_bool c s) = accepts s"
  by (simp add: driver_bool_def accepts_def split: list.splits)

lemma driver_bool_sent: "sent (snd (driver_bool c s)) = sent s @ [c]"
  by (simp add: driver_bool_def split: list.splits)

lemma driver_bool_TrackState: "TrackState (snd (driver_bool c s)) = TrackState s"
  by (simp add: driver_bool_def split: list.splits)

lemma driver_bool_IsParked: "IsParked (snd (driver_bool c s)) = IsParked s"
  by (simp add: driver_bool_def split: list.splits)

text \<open>
  C1, as amended. On the iEQ Pro, \<open>MoveNS\<close> and \<open>MoveWE\<close> called while the session
  state is PARKED return false and leave the whole driver state as it was: no device
  call is made and the session state does not change.
\<close>

theorem Move_rejected_while_parked:
  assumes "TrackState s = SCOPE_PARKED"
  shows "MoveNS ns command s = (False, s) \<and> MoveWE we command s = (False, s)"
  using assms by (simp add: MoveNS_def MoveWE_def)

theorem Move_rejected_while_parked_witness:
  "TrackState (IEQPro_init\<lparr>TrackState := SCOPE_PARKED, replies := [R_OK]\<rparr>) = SCOPE_PARKED
   \<and> MoveNS DIRECTION_NORTH MOTION_START (IEQPro_init\<lparr>TrackState := SCOPE_PARKED, replies := [R_OK]\<rparr>)
       = (False, IEQPro_init\<lparr>TrackState := SCOPE_PARKED, replies := [R_OK]\<rparr>)
   \<and> MoveWE DIRECTION_EAST MOTION_STOP (IEQPro_init\<lparr>TrackState := SCOPE_PARKED, replies := [R_OK]\<rparr>)
       = (False, IEQPro_init\<lparr>TrackState := SCOPE_PARKED, replies := [R_OK]\<rparr>)"
  using Move_rejected_while_parked
          [of "IEQPro_init\<lparr>TrackState := SCOPE_PARKED, replies := [R_OK]\<rparr>"
              DIRECTION_NORTH MOTION_START DIRECTION_EAST]
        Move_rejected_while_parked
          [of "IEQPro_init\<lparr>TrackState := SCOPE_PARKED, replies := [R_OK]\<rparr>"
              DIRECTION_NORTH MOTION_STOP DIRECTION_EAST]
  by simp

text \<open>
  C7. On a mount that parks natively, \<open>UnPark\<close> sends the native unpark command first.
  If the device does not accept it, \<open>UnPark\<close> returns false and neither the park flag
  nor the session state changes; if it does, \<open>UnPark\<close> returns true, the park flag is
  cleared and the session state is IDLE.
\<close>

theorem UnPark_native_first:
  assumes "canParkNatively s"
  shows "sent (snd (UnPark s)) = sent s @ [UnparkCmd]
         \<and> (if accepts s
            then fst (UnPark s) \<and> IsParked (snd (UnPark s)) = False
                 \<and> TrackState (snd (UnPark s)) = SCOPE_IDLE
            else \<not> fst (UnPark s) \<and> IsParked (snd (UnPark s)) = IsParked s
                 \<and> TrackState (snd (UnPark s)) = TrackState s)"
  using assms
  by (simp add: UnPark_def SetParked_def driver_bool_def accepts_def split: list.splits)

theorem UnPark_native_first_witness:
  "canParkNatively (IEQPro_init\<lparr>canParkNatively := True, TrackState := SCOPE_PARKED,
                                 IsParked := True, replies := [R_FAIL]\<rparr>)
   \<and> \<not> fst (UnPark (IEQPro_init\<lparr>canParkNatively := True, TrackState := SCOPE_PARKED,
                                   IsParked := True, replies := [R_FAIL]\<rparr>))
   \<and> IsParked (snd (UnPark (IEQPro_init\<lparr>canParkNatively := True, TrackState := SCOPE_PARKED,
                                   IsParked := True, replies := [R_FAIL]\<rparr>)))
   \<and> TrackState (snd (UnPark (IEQPro_init\<lparr>canParkNatively := True, TrackState := SCOPE_PARKED,
                                   IsParked := True, replies := [R_FAIL]\<rparr>))) = SCOPE_PARKED"
  using UnPark_native_first
          [of "IEQPro_init\<lparr>canParkNatively := True, TrackState := SCOPE_PARKED,
                            IsParked := True, replies := [R_FAIL]\<rparr>"]
  by (simp add: accepts_def IEQPro_init_def)

subsection \<open>Parking without native support\<close>

lemma driver_getStatus_TrackState: "TrackState (snd (driver_getStatus s)) = TrackState s"
  by (simp add: driver_getStatus_def split: list.splits)

lemma wait_slewing_TrackState: "TrackState (snd (wait_slewing n i s)) = TrackState s"
proof (induction n arbitrary: i s)
  case 0
  show ?case by simp
next
  case (Suc n)
  show ?case
    by (cases "driver_getStatus s")
       (auto simp: Suc driver_getStatus_def split: list.splits option.splits ieq_reply.splits)
qed

lemma Goto_fail_TrackState:
  "\<not> fst (Goto u r d s) \<Longrightarrow> TrackState (snd (Goto u r d s)) = TrackState s"
  by (simp add: Goto_def Let_def case_prod_beta driver_bool_TrackState wait_slewing_TrackState
           split: if_splits)

lemma Park_fallback_fst:
  "\<not> canParkNatively s \<Longrightarrow>
     fst (Park h2e u s)
       = fst (Goto u (fst (h2e (Axis1Park s, Axis2Park s))) (snd (h2e (Axis1Park s, Axis2Park s))) s)"
  by (simp add: Park_def Let_def case_prod_beta)

lemma Park_fallback_sent:
  "\<not> canParkNatively s \<Longrightarrow>
     sent (snd (Park h2e u s))
       = sent (snd (Goto u (fst (h2e (Axis1Park s, Axis2Park s))) (snd (h2e (Axis1Park s, Axis2Park s))) s))"
  by (simp add: Park_def Let_def case_prod_beta)

lemma Park_fallback_state:
  "\<not> canParkNatively s \<Longrightarrow>
     TrackState (snd (Park h2e u s)) = (if fst (Park h2e u s) then SCOPE_PARKING else TrackState s)"
  by (simp add: Park_def Let_def case_prod_beta Goto_fail_TrackState)

lemma Park_fallback_dirty:
  "\<not> canParkNatively s \<Longrightarrow> fst (Park h2e u s) \<Longrightarrow> \<not> slewDirty (snd (Park h2e u s))"
  by (simp add: Park_def Let_def case_prod_beta split: if_splits)

lemma read_coords_fields:
  "TrackState (snd (read_coords t)) = TrackState t"
  "IsParked (snd (read_coords t)) = IsParked t"
  "slewDirty (snd (read_coords t)) = slewDirty t"
  "pubs (snd (read_coords t)) = pubs t"
  by (simp_all add: read_coords_def driver_getCoords_def NewRaDec_def
        split: list.splits ieq_reply.splits)

lemma read_pier_side_fields:
  "TrackState (read_pier_side t) = TrackState t"
  "IsParked (read_pier_side t) = IsParked t"
  "slewDirty (read_pier_side t) = slewDirty t"
  "pubs (read_pier_side t) = pubs t"
  by (simp_all add: read_pier_side_def driver_getPierSide_def setPierSide_def
        split: list.splits ieq_reply.splits)

lemma ReadScopeStatus_fields:
  assumes "replies s = R_STATUS i # rs"
  shows "TrackState (snd (ReadScopeStatus s)) = TrackState (apply_status i (snd (driver_getStatus s)))"
    and "IsParked (snd (ReadScopeStatus s)) = IsParked (apply_status i (snd (driver_getStatus s)))"
    and "slewDirty (snd (ReadScopeStatus s)) = slewDirty (apply_status i (snd (driver_getStatus s)))"
    and "pubs (snd (ReadScopeStatus s)) = pubs (apply_status i (snd (driver_getStatus s)))"
  using assms
  by (simp_all add: ReadScopeStatus_def Let_def read_coords_fields read_pier_side_fields
        driver_getStatus_def)

lemma apply_status_fields:
  "TrackState (apply_status i t) = TrackState (status_switch (systemStatus i) t)"
  "IsParked (apply_status i t) = IsParked (status_switch (systemStatus i) t)"
  "slewDirty (apply_status i t) = slewDirty (status_switch (systemStatus i) t)"
  by (simp_all add: apply_status_def Let_def publish_def status_switch_def SetParked_def
        isParked_def SetTrackEnabled_def driver_bool_def split: list.splits)


lemma poll_arrival:
  assumes "replies s = R_STATUS i # rs" and "TrackState s = SCOPE_PARKING"
    and "\<not> canParkNatively s"
    and "systemStatus i \<in> {ST_TRACKING_PEC_OFF, ST_TRACKING_PEC_ON, ST_GUIDING}"
  shows "if slewDirty s
         then TrackState (snd (ReadScopeStatus s)) = SCOPE_PARKED \<and> IsParked (snd (ReadScopeStatus s))
         else TrackState (snd (ReadScopeStatus s)) = SCOPE_PARKING
              \<and> IsParked (snd (ReadScopeStatus s)) = IsParked s"
  using assms
  by (auto simp: ReadScopeStatus_fields [OF assms(1)] apply_status_fields status_switch_def
        driver_getStatus_def SetParked_def SetTrackEnabled_def Let_def driver_bool_def
        split: list.splits)

lemma poll_slewing:
  assumes "replies s = R_STATUS i # rs" and "TrackState s = SCOPE_PARKING"
    and "systemStatus i \<in> {ST_SLEWING, ST_MERIDIAN_FLIPPING}"
  shows "TrackState (snd (ReadScopeStatus s)) = SCOPE_PARKING \<and> slewDirty (snd (ReadScopeStatus s))"
  using assms
  by (auto simp: ReadScopeStatus_fields [OF assms(1)] apply_status_fields status_switch_def
        driver_getStatus_def Let_def)

lemma lx_call_TrackState: "fs2_TrackState (snd (lx_call c s)) = fs2_TrackState s"
  by (simp add: lx_call_def split: list.splits)

lemma Goto_FS2_TrackState:
  "fs2_TrackState (snd (Goto_FS2 r d s))
     = (if fst (Goto_FS2 r d s) then SCOPE_SLEWING else fs2_TrackState s)"
  by (simp add: Goto_FS2_def Let_def case_prod_beta lx_call_TrackState slewError_def
        fs2_publish_def)

lemma Park_FS2_props:
  "fst (Park_FS2 h2e f)
     = fst (Goto_FS2 (fst (h2e (fs2_Axis1Park f, fs2_Axis2Park f)))
                     (snd (h2e (fs2_Axis1Park f, fs2_Axis2Park f))) f)"
  "fs2_sent (snd (Park_FS2 h2e f))
     = fs2_sent (snd (Goto_FS2 (fst (h2e (fs2_Axis1Park f, fs2_Axis2Park f)))
                               (snd (h2e (fs2_Axis1Park f, fs2_Axis2Park f))) f))"
  "fs2_TrackState (snd (Park_FS2 h2e f))
     = (if fst (Park_FS2 h2e f) then SCOPE_PARKING else fs2_TrackState f)"
  by (simp_all add: Park_FS2_def Let_def case_prod_beta Goto_FS2_TrackState)

text \<open>
  C2, as the claim states it, fails: after a \<open>Park\<close> that fell back to a Goto and
  succeeded, the next status poll reports tracking (the mount is at the target), and the
  session state is still PARKING, the park flag still clear. \<open>Park\<close> has cleared
  \<open>slewDirty\<close>, and the poll parks only when \<open>slewDirty\<close> is set.
\<close>

theorem Park_then_arrival_counterexample:
  "\<not> canParkNatively
       (IEQPro_init\<lparr>replies := [R_OK, R_OK, R_OK, R_STATUS (info_init\<lparr>systemStatus := ST_SLEWING\<rparr>),
                                 R_STATUS (info_init\<lparr>systemStatus := ST_TRACKING_PEC_OFF\<rparr>),
                                 R_COORDS 1 2]\<rparr>)
   \<and> fst (Park id info_init
       (IEQPro_init\<lparr>replies := [R_OK, R_OK, R_OK, R_STATUS (info_init\<lparr>systemStatus := ST_SLEWING\<rparr>),
                                 R_STATUS (info_init\<lparr>systemStatus := ST_TRACKING_PEC_OFF\<rparr>),
                                 R_COORDS 1 2]\<rparr>))
   \<and> fst (ReadScopeStatus (snd (Park id info_init
       (IEQPro_init\<lparr>replies := [R_OK, R_OK, R_OK, R_STATUS (info_init\<lparr>systemStatus := ST_SLEWING\<rparr>),
                                 R_STATUS (info_init\<lparr>systemStatus := ST_TRACKING_PEC_OFF\<rparr>),
                                 R_COORDS 1 2]\<rparr>))))
   \<and> TrackState (snd (ReadScopeStatus (snd (Park id info_init
       (IEQPro_init\<lparr>replies := [R_OK, R_OK, R_OK, R_STATUS (info_init\<lparr>systemStatus := ST_SLEWING\<rparr>),
                                 R_STATUS (info_init\<lparr>systemStatus := ST_TRACKING_PEC_OFF\<rparr>),
                                 R_COORDS 1 2]\<rparr>))))) = SCOPE_PARKING
   \<and> IsParked (snd (ReadScopeStatus (snd (Park id info_init
       (IEQPro_init\<lparr>replies := [R_OK, R_OK, R_OK, R_STATUS (info_init\<lparr>systemStatus := ST_SLEWING\<rparr>),
                                 R_STATUS (info_init\<lparr>systemStatus := ST_TRACKING_PEC_OFF\<rparr>),
                                 R_COORDS 1 2]\<rparr>))))) = False"
  by (simp add: IEQPro_init_def info_init_def Park_def Goto_def driver_bool_def
        driver_getStatus_def ReadScopeStatus_def apply_status_def status_switch_def publish_def
        read_pier_side_def HasPierSide_def read_coords_def driver_getCoords_def NewRaDec_def
        Let_def numeral_eq_Suc)

text \<open>
  C2, as amended. On a mount without native parking, \<open>Park\<close> converts the park
  azimuth and altitude, issues exactly the device calls of a Goto to the converted
  coordinates, returns what that Goto returns, and on success sets the session state to
  PARKING (and clears \<open>slewDirty\<close>), on failure leaves the session state as it was; so
  does the FS-2. On the iEQ Pro a later poll that reports tracking or guiding, in state
  PARKING, transitions to PARKED and sets the park flag if a poll has reported slewing
  since (\<open>slewDirty\<close>), and otherwise leaves the state PARKING and the park flag as it
  was; a poll that reports slewing in state PARKING sets \<open>slewDirty\<close>.
\<close>

theorem Park_fallback_and_arrival:
  "(\<not> canParkNatively s \<longrightarrow>
      fst (Park h2e u s)
        = fst (Goto u (fst (h2e (Axis1Park s, Axis2Park s))) (snd (h2e (Axis1Park s, Axis2Park s))) s)
      \<and> sent (snd (Park h2e u s))
        = sent (snd (Goto u (fst (h2e (Axis1Park s, Axis2Park s))) (snd (h2e (Axis1Park s, Axis2Park s))) s))
      \<and> TrackState (snd (Park h2e u s)) = (if fst (Park h2e u s) then SCOPE_PARKING else TrackState s)
      \<and> (fst (Park h2e u s) \<longrightarrow> \<not> slewDirty (snd (Park h2e u s))))
   \<and> fst (Park_FS2 h2e f)
        = fst (Goto_FS2 (fst (h2e (fs2_Axis1Park f, fs2_Axis2Park f)))
                        (snd (h2e (fs2_Axis1Park f, fs2_Axis2Park f))) f)
   \<and> fs2_sent (snd (Park_FS2 h2e f))
        = fs2_sent (snd (Goto_FS2 (fst (h2e (fs2_Axis1Park f, fs2_Axis2Park f)))
                                  (snd (h2e (fs2_Axis1Park f, fs2_Axis2Park f))) f))
   \<and> fs2_TrackState (snd (Park_FS2 h2e f))
        = (if fst (Park_FS2 h2e f) then SCOPE_PARKING else fs2_TrackState f)
   \<and> (TrackState t = SCOPE_PARKING \<and> \<not> canParkNatively t \<and> replies t = R_STATUS i # rs
        \<and> systemStatus i \<in> {ST_TRACKING_PEC_OFF, ST_TRACKING_PEC_ON, ST_GUIDING} \<longrightarrow>
        (if slewDirty t
         then TrackState (snd (ReadScopeStatus t)) = SCOPE_PARKED \<and> IsParked (snd (ReadScopeStatus t))
         else TrackState (snd (ReadScopeStatus t)) = SCOPE_PARKING
              \<and> IsParked (snd (ReadScopeStatus t)) = IsParked t))
   \<and> (TrackState t = SCOPE_PARKING \<and> replies t = R_STATUS i # rs
        \<and> systemStatus i \<in> {ST_SLEWING, ST_MERIDIAN_FLIPPING} \<longrightarrow>
        TrackState (snd (ReadScopeStatus t)) = SCOPE_PARKING \<and> slewDirty (snd (ReadScopeStatus t)))"
proof -
  have ieq: "\<not> canParkNatively s \<longrightarrow>
      fst (Park h2e u s)
        = fst (Goto u (fst (h2e (Axis1Park s, Axis2Park s))) (snd (h2e (Axis1Park s, Axis2Park s))) s)
      \<and> sent (snd (Park h2e u s))
        = sent (snd (Goto u (fst (h2e (Axis1Park s, Axis2Park s))) (snd (h2e (Axis1Park s, Axis2Park s))) s))
      \<and> TrackState (snd (Park h2e u s)) = (if fst (Park h2e u s) then SCOPE_PARKING else TrackState s)
      \<and> (fst (Park h2e u s) \<longrightarrow> \<not> slewDirty (snd (Park h2e u s)))"
    using Park_fallback_fst [of s h2e u] Park_fallback_sent [of s h2e u]
      Park_fallback_state [of s h2e u] Park_fallback_dirty [of s h2e u]
    by blast
  have arr: "TrackState t = SCOPE_PARKING \<and> \<not> canParkNatively t \<and> replies t = R_STATUS i # rs
        \<and> systemStatus i \<in> {ST_TRACKING_PEC_OFF, ST_TRACKING_PEC_ON, ST_GUIDING} \<longrightarrow>
        (if slewDirty t
         then TrackState (snd (ReadScopeStatus t)) = SCOPE_PARKED \<and> IsParked (snd (ReadScopeStatus t))
         else TrackState (snd (ReadScopeStatus t)) = SCOPE_PARKING
              \<and> IsParked (snd (ReadScopeStatus t)) = IsParked t)"
    using poll_arrival [of t i rs] by blast
  have slw: "TrackState t = SCOPE_PARKING \<and> replies t = R_STATUS i # rs
        \<and> systemStatus i \<in> {ST_SLEWING, ST_MERIDIAN_FLIPPING} \<longrightarrow>
        TrackState (snd (ReadScopeStatus t)) = SCOPE_PARKING \<and> slewDirty (snd (ReadScopeStatus t))"
    using poll_slewing [of t i rs] by blast
  show ?thesis
    using ieq arr slw Park_FS2_props [of h2e f] by blast
qed

lemmas ieq_eval = IEQPro_init_def info_init_def Park_def Goto_def driver_bool_def
  driver_getStatus_def ReadScopeStatus_def apply_status_def status_switch_def publish_def
  read_pier_side_def HasPierSide_def read_coords_def driver_getCoords_def NewRaDec_def
  SetParked_def isParked_def SetTrackEnabled_def Let_def numeral_eq_Suc

theorem Park_fallback_and_arrival_witness:
  "\<not> canParkNatively park_run
   \<and> fst (Park id info_init park_run)
   \<and> TrackState park_run1 = SCOPE_PARKING
   \<and> \<not> slewDirty park_run1
   \<and> fst (Park_FS2 id fs2_run)
   \<and> fs2_TrackState (snd (Park_FS2 id fs2_run)) = SCOPE_PARKING
   \<and> TrackState park_run2 = SCOPE_PARKING
   \<and> slewDirty park_run2
   \<and> TrackState (snd (ReadScopeStatus park_run2)) = SCOPE_PARKED
   \<and> IsParked (snd (ReadScopeStatus park_run2))"
proof -
  have a: "\<not> canParkNatively park_run" "fst (Park id info_init park_run)"
    by (simp_all add: park_run_def ieq_eval)
  have b: "TrackState park_run1 = SCOPE_PARKING" "\<not> canParkNatively park_run1"
    "replies park_run1 = R_STATUS (info_init\<lparr>systemStatus := ST_SLEWING\<rparr>)
        # [R_COORDS 1 2, R_STATUS (info_init\<lparr>systemStatus := ST_TRACKING_PEC_OFF\<rparr>), R_OK, R_COORDS 3 4]"
    by (simp_all add: park_run1_def park_run_def ieq_eval)
  have c: "TrackState park_run2 = SCOPE_PARKING" "\<not> canParkNatively park_run2" "slewDirty park_run2"
    "replies park_run2 = R_STATUS (info_init\<lparr>systemStatus := ST_TRACKING_PEC_OFF\<rparr>) # [R_OK, R_COORDS 3 4]"
    by (simp_all add: park_run2_def park_run1_def park_run_def ieq_eval)
  have d: "fst (Park_FS2 id fs2_run)"
    by (simp add: fs2_run_def LX200FS2_init_def Park_FS2_def Goto_FS2_def lx_call_def Let_def)
  show ?thesis
    using a b c d
      Park_fallback_and_arrival [of park_run id info_init fs2_run park_run1
         "info_init\<lparr>systemStatus := ST_SLEWING\<rparr>"
         "[R_COORDS 1 2, R_STATUS (info_init\<lparr>systemStatus := ST_TRACKING_PEC_OFF\<rparr>), R_OK, R_COORDS 3 4]"]
      Park_fallback_and_arrival [of park_run id info_init fs2_run park_run2
         "info_init\<lparr>systemStatus := ST_TRACKING_PEC_OFF\<rparr>" "[R_OK, R_COORDS 3 4]"]
    by (simp add: park_run1_def [symmetric] park_run2_def [symmetric])
qed

subsection \<open>Motion while parked\<close>

text \<open>
  C1, as the claim states it, fails for \<open>Goto\<close>: called on a parked mount it sends the
  target and the slew command to the device, returns true and moves the session state
  from PARKED to SLEWING.
\<close>

theorem Goto_while_parked_counterexample:
  "TrackState parked_run = SCOPE_PARKED
   \<and> fst (Goto info_init 1 2 parked_run)
   \<and> sent (snd (Goto info_init 1 2 parked_run)) = [SetRA 1, SetDE 2, SlewCmd, GetStatus]
   \<and> TrackState (snd (Goto info_init 1 2 parked_run)) = SCOPE_SLEWING"
  by (simp add: parked_run_def ieq_eval)

text \<open>
  The FS-2 driver issues a motion command while parked on purpose: the step that stops
  the motors calls \<open>MoveWE\<close> whatever the session state is, and \<open>ReadScopeStatus\<close> takes
  that step only in state PARKED.
\<close>

lemma TrackingStop_AllStop_moves:
  "fs2_ParkedStatus s = PARKED_NEEDSTOP \<Longrightarrow>
     TrackingStop_AllStop moveWE s
       = (snd (moveWE DIRECTION_EAST MOTION_START s))\<lparr>fs2_ParkedStatus := PARKED_STOPPED\<rparr>"
  by (simp add: TrackingStop_AllStop_def)

subsection \<open>Guide pulses during a slew\<close>

text \<open>
  C8, as the claim states it, fails: with the session state SLEWING, \<open>GuideNorth\<close>
  sends the guide command to the device and reports OK.
\<close>

theorem Guide_while_slewing_counterexample:
  "TrackState slewing_run = SCOPE_SLEWING
   \<and> fst (GuideNorth 500 slewing_run) = IPS_OK
   \<and> sent (snd (GuideNorth 500 slewing_run)) = [StartGuide IEQ_N 500]
   \<and> TrackState (snd (GuideNorth 500 slewing_run)) = SCOPE_SLEWING"
  by (simp add: slewing_run_def GuideNorth_def ips_of_rc_def ieq_eval)

text \<open>
  C8, as amended. The guide functions do not look at the session state: in every state,
  SLEWING included, each sends exactly one guide command to the device, in its direction
  and with the requested duration, answers OK if the device accepts it and ALERT if not,
  and leaves the session state as it was.
\<close>

theorem Guide_sent_in_every_state:
  "sent (snd (GuideNorth ms s)) = sent s @ [StartGuide IEQ_N ms]
   \<and> sent (snd (GuideSouth ms s)) = sent s @ [StartGuide IEQ_S ms]
   \<and> sent (snd (GuideEast ms s)) = sent s @ [StartGuide IEQ_E ms]
   \<and> sent (snd (GuideWest ms s)) = sent s @ [StartGuide IEQ_W ms]
   \<and> fst (GuideNorth ms s) = (if accepts s then IPS_OK else IPS_ALERT)
   \<and> fst (GuideSouth ms s) = (if accepts s then IPS_OK else IPS_ALERT)
   \<and> fst (GuideEast ms s) = (if accepts s then IPS_OK else IPS_ALERT)
   \<and> fst (GuideWest ms s) = (if accepts s then IPS_OK else IPS_ALERT)
   \<and> TrackState (snd (GuideNorth ms s)) = TrackState s
   \<and> TrackState (snd (GuideSouth ms s)) = TrackState s
   \<and> TrackState (snd (GuideEast ms s)) = TrackState s
   \<and> TrackState (snd (GuideWest ms s)) = TrackState s"
  by (simp add: GuideNorth_def GuideSouth_def GuideEast_def GuideWest_def ips_of_rc_def
        case_prod_beta driver_bool_fst driver_bool_sent driver_bool_TrackState)

subsection \<open>The wait for slewing in Goto\<close>

lemma wait_slewing_result:
  "systemStatus (fst (wait_slewing n u s)) = ST_SLEWING \<longleftrightarrow>
     list_ex is_slewing (take n (replies s))
     \<or> (systemStatus u = ST_SLEWING \<and> \<not> list_ex is_status (take n (replies s)))"
proof (induction n arbitrary: u s)
  case 0
  show ?case by simp
next
  case (Suc n)
  show ?case
  proof (cases "replies s")
    case Nil
    then show ?thesis
      by (simp add: driver_getStatus_def Suc)
  next
    case (Cons r rs)
    then show ?thesis
      by (cases r) (simp_all add: driver_getStatus_def Suc is_slewing_def is_status_def)
  qed
qed

lemma wait_slewing_polls:
  "\<exists>k\<le>n. sent (snd (wait_slewing n u s)) = sent s @ replicate k GetStatus
          \<and> slept_ms (snd (wait_slewing n u s)) \<le> slept_ms s + 100 * k"
proof (induction n arbitrary: u s)
  case 0
  show ?case by simp
next
  case (Suc n)
  let ?s1 = "snd (driver_getStatus s)"
  have s1: "sent ?s1 = sent s @ [GetStatus]" "slept_ms ?s1 = slept_ms s"
    by (simp_all add: driver_getStatus_def split: list.splits)
  show ?case
  proof (cases "\<exists>i. fst (driver_getStatus s) = Some i \<and> systemStatus i = ST_SLEWING")
    case True
    then have "wait_slewing (Suc n) u s = (the (fst (driver_getStatus s)), ?s1)"
      by (auto simp: case_prod_beta)
    then show ?thesis
      using s1 by (intro exI [of _ 1]) simp
  next
    case False
    then obtain v where w: "wait_slewing (Suc n) u s = wait_slewing n v (?s1\<lparr>slept_ms := slept_ms ?s1 + 100\<rparr>)"
      by (cases "fst (driver_getStatus s)") (auto simp: case_prod_beta)
    from Suc [of v "?s1\<lparr>slept_ms := slept_ms ?s1 + 100\<rparr>"]
    obtain k where k: "k \<le> n"
      "sent (snd (wait_slewing (Suc n) u s)) = sent s @ [GetStatus] @ replicate k GetStatus"
      "slept_ms (snd (wait_slewing (Suc n) u s)) \<le> slept_ms s + 100 + 100 * k"
      using s1 w by auto
    then show ?thesis
      by (intro exI [of _ "Suc k"]) simp
  qed
qed

text \<open>
  Once the device has accepted the target and the slew command,
  \<open>Goto\<close> makes at most five status polls, and it returns true exactly when one of them
  reports slewing, or when none of them returned a status and the local \<open>newInfo\<close>
  held the slewing status to begin with.
\<close>

lemma Goto_accepted:
  assumes "replies s = R_OK # R_OK # R_OK # rs"
  shows "fst (Goto u r d s) \<longleftrightarrow>
           list_ex is_slewing (take 5 rs)
           \<or> (systemStatus u = ST_SLEWING \<and> \<not> list_ex is_status (take 5 rs))"
    and "TrackState (snd (Goto u r d s)) = (if fst (Goto u r d s) then SCOPE_SLEWING else TrackState s)"
    and "\<exists>k\<le>5. sent (snd (Goto u r d s)) = sent s @ [SetRA r, SetDE d, SlewCmd] @ replicate k GetStatus"
proof -
  let ?s3 = "s\<lparr>targetRA := r, targetDEC := d, sent := sent s @ [SetRA r, SetDE d, SlewCmd], replies := rs\<rparr>"
  have g: "Goto u r d s =
      (if systemStatus (fst (wait_slewing 5 u ?s3)) = ST_SLEWING
       then (True, (snd (wait_slewing 5 u ?s3))\<lparr>TrackState := SCOPE_SLEWING\<rparr>)
       else (False, snd (wait_slewing 5 u ?s3)))"
    using assms by (simp add: Goto_def driver_bool_def Let_def case_prod_beta)
  show "fst (Goto u r d s) \<longleftrightarrow>
           list_ex is_slewing (take 5 rs)
           \<or> (systemStatus u = ST_SLEWING \<and> \<not> list_ex is_status (take 5 rs))"
    using wait_slewing_result [of 5 u ?s3] by (simp add: g)
  show "TrackState (snd (Goto u r d s)) = (if fst (Goto u r d s) then SCOPE_SLEWING else TrackState s)"
    by (simp add: g wait_slewing_TrackState)
  show "\<exists>k\<le>5. sent (snd (Goto u r d s)) = sent s @ [SetRA r, SetDE d, SlewCmd] @ replicate k GetStatus"
    using wait_slewing_polls [of 5 u ?s3] by (auto simp: g)
qed

text \<open>
  C6 at its failing input. The device accepts the Goto and then answers none of the five
  status polls, so nothing is ever written into \<open>newInfo\<close>. \<open>Goto\<close> still compares
  \<open>newInfo.systemStatus\<close> with the slewing status: if the local happened to hold it,
  \<open>Goto\<close> returns true and sets SLEWING although the device never reported slewing; if
  it held something else, \<open>Goto\<close> returns false.
\<close>

theorem Goto_reads_unwritten_status:
  "fst (Goto (info_init\<lparr>systemStatus := ST_SLEWING\<rparr>) 1 2 silent_run)
   \<and> TrackState (snd (Goto (info_init\<lparr>systemStatus := ST_SLEWING\<rparr>) 1 2 silent_run)) = SCOPE_SLEWING
   \<and> sent (snd (Goto (info_init\<lparr>systemStatus := ST_SLEWING\<rparr>) 1 2 silent_run))
       = [SetRA 1, SetDE 2, SlewCmd, GetStatus, GetStatus, GetStatus, GetStatus, GetStatus]
   \<and> slept_ms (snd (Goto (info_init\<lparr>systemStatus := ST_SLEWING\<rparr>) 1 2 silent_run)) = 500
   \<and> fst (Goto info_init 1 2 silent_run) = False
   \<and> TrackState (snd (Goto info_init 1 2 silent_run)) = SCOPE_IDLE"
  by (simp add: silent_run_def ieq_eval)

subsection \<open>Capability flags across sessions\<close>

lemma Handshake_flags:
  assumes "replies s = R_OK # mp1 # msh # rg # rs"
  shows "fst (Handshake s)"
    and "canParkNatively (snd (Handshake s)) = (mp1 = R_OK)"
    and "canFindHome (snd (Handshake s)) = (msh = R_OK)"
    and "canGuideRate (snd (Handshake s)) = (rg = R_OK)"
  using assms by (simp_all add: Handshake_def driver_bool_def Let_def)

lemma capability_steps:
  "capability (snd (driver_bool c s)) = capability s"
  "capability (snd (driver_getStatus s)) = capability s"
  "capability (snd (driver_getPierSide s)) = capability s"
  "capability (publish p s) = capability s"
  "capability (park_defaults initPark s) = capability s"
  by (simp_all add: driver_bool_def driver_getStatus_def driver_getPierSide_def publish_def
        park_defaults_def Let_def split: list.splits)

lemma getStartupData_capability:
  "capability (getStartupData cfg initPark s) = capability s
   \<or> capability (getStartupData cfg initPark s) = insert TELESCOPE_HAS_PIER_SIDE (capability s)"
  by (simp add: getStartupData_def Let_def case_prod_beta capability_steps
        split: option.splits)

text \<open>The pier side flag, once set, survives connecting and disconnecting.\<close>

lemma HasPierSide_kept:
  "HasPierSide s \<Longrightarrow> HasPierSide (updateProperties c cfg initPark s)"
  using getStartupData_capability [of cfg initPark s]
  by (auto simp: HasPierSide_def updateProperties_def Let_def)

text \<open>
  C9 at its failing input. The first session finds native parking and a readable pier
  side. In the second session, on another mount, every probe of the handshake says
  unsupported and the pier side query fails: \<open>canParkNatively\<close>, \<open>canFindHome\<close> and
  \<open>canGuideRate\<close> are assigned afresh and are false, but the pier side capability is
  still set, carried over from the first session.
\<close>

theorem pier_side_flag_carried_over:
  "\<not> HasPierSide IEQPro_init
   \<and> HasPierSide session1 \<and> canParkNatively session1 \<and> canFindHome session1 \<and> canGuideRate session1
   \<and> fst (Handshake session2_start)
   \<and> \<not> canParkNatively session2 \<and> \<not> canFindHome session2 \<and> \<not> canGuideRate session2
   \<and> sent session2 = sent session1
        @ [InitCommunication, IsCommandSupported ''MP1'', IsCommandSupported ''MSH'',
           IsCommandSupported ''RG'', GetFirmwareInfo, GetGuideRate, GetUTCDateTime, GetStatus,
           GetPierSide]
   \<and> replies session2 = []
   \<and> HasPierSide session2"
  by (simp add: session2_def session2_start_def session1_closed_def session1_def
        updateProperties_def getStartupData_def Handshake_def park_defaults_def
        driver_getPierSide_def ieq_eval)

section \<open>Properties of the guider interface\<close>

text \<open>
  When the update leaves the North (West) member nonzero, the
  opposite member is set to 0, the callback is invoked once, for North (West), the
  property takes the state the callback returns and is published once. The duration
  handed to the callback is the first value of the request, \<open>values[0]\<close>.
\<close>

lemma ISNewNumber_north:
  assumes "name = pname (GuideNS g)"
    and "nvalue (member0 (update_number (v0 # vs) names (GuideNS g))) \<noteq> 0"
  shows "ISNewNumber ns we name (v0 # vs) names g
           = Some (True,
               g\<lparr>GuideNS := (update_number (v0 # vs) names (GuideNS g))
                     \<lparr>member1 := (member1 (update_number (v0 # vs) names (GuideNS g)))\<lparr>nvalue := 0\<rparr>,
                      pstate := fst (ns DIRECTION_NORTH (to_uint32 v0) (dev g))\<rparr>,
                  dev := snd (ns DIRECTION_NORTH (to_uint32 v0) (dev g)),
                  gpubs := gpubs g @ [GuideNSNP]\<rparr>)"
  using assms by (simp add: ISNewNumber_def Let_def case_prod_beta)

lemma ISNewNumber_west:
  assumes "name \<noteq> pname (GuideNS g)" and "name = pname (GuideWE g)"
    and "nvalue (member0 (update_number (v0 # vs) names (GuideWE g))) \<noteq> 0"
  shows "ISNewNumber ns we name (v0 # vs) names g
           = Some (True,
               g\<lparr>GuideWE := (update_number (v0 # vs) names (GuideWE g))
                     \<lparr>member1 := (member1 (update_number (v0 # vs) names (GuideWE g)))\<lparr>nvalue := 0\<rparr>,
                      pstate := fst (we DIRECTION_WEST (to_uint32 v0) (dev g))\<rparr>,
                  dev := snd (we DIRECTION_WEST (to_uint32 v0) (dev g)),
                  gpubs := gpubs g @ [GuideWENP]\<rparr>)"
  using assms by (simp add: ISNewNumber_def Let_def case_prod_beta)

lemmas guider_eval = ISNewNumber_def GuiderInterface_init_def init_GuideNSNP_def
  init_GuideWENP_def fill_number_def update_number_def valid_pair_def find_member_def
  set_member_def to_uint32_def log_ns_def log_we_def Let_def

text \<open>
  C4 at its failing input. A client sends the North/South property with the members in
  the order South, North: South 0, North 500. The update leaves North at 500 and South
  at 0, and the pulse issued is a North pulse of 0 ms, the value of the South member,
  not the 500 ms requested for North. The West/East property does the same. The branch
  for the opposite direction shows the same slip in the usual order: North 0, South 500
  issues a South pulse of 0 ms.
\<close>

theorem guide_pulse_takes_first_value:
  "ISNewNumber log_ns log_we ''TELESCOPE_TIMED_GUIDE_NS'' [0, 500]
       [''TIMED_GUIDE_S'', ''TIMED_GUIDE_N''] GuiderInterface_init
     = Some (True,
         GuiderInterface_init
           \<lparr>GuideNS := init_GuideNSNP
              \<lparr>member0 := fill_number ''TIMED_GUIDE_N'' 0 60000 500, pstate := IPS_OK\<rparr>,
            gpubs := [GuideNSNP],
            dev := [(Inl DIRECTION_NORTH, 0)]\<rparr>)
   \<and> ISNewNumber log_ns log_we ''TELESCOPE_TIMED_GUIDE_WE'' [0, 500]
       [''TIMED_GUIDE_E'', ''TIMED_GUIDE_W''] GuiderInterface_init
     = Some (True,
         GuiderInterface_init
           \<lparr>GuideWE := init_GuideWENP
              \<lparr>member0 := fill_number ''TIMED_GUIDE_W'' 0 60000 500, pstate := IPS_OK\<rparr>,
            gpubs := [GuideWENP],
            dev := [(Inr DIRECTION_WEST, 0)]\<rparr>)
   \<and> ISNewNumber log_ns log_we ''TELESCOPE_TIMED_GUIDE_NS'' [0, 500]
       [''TIMED_GUIDE_N'', ''TIMED_GUIDE_S''] GuiderInterface_init
     = Some (True,
         GuiderInterface_init
           \<lparr>GuideNS := init_GuideNSNP
              \<lparr>member1 := fill_number ''TIMED_GUIDE_S'' 0 60000 500, pstate := IPS_OK\<rparr>,
            gpubs := [GuideNSNP],
            dev := [(Inl DIRECTION_SOUTH, 0)]\<rparr>)"
  by (simp add: guider_eval)

section \<open>Properties of the flap panel driver\<close>

subsection \<open>Publications of the status poll\<close>

lemma getStatus_process:
  assumes "dsd_replies s = Number m # Number l # Number c # Number t # Number h # rest"
  shows "getStatus u s =
           (True, process_status (m, l, c, t, h)
              (s\<lparr>dsd_sent := dsd_sent s @ [GMOV, GLON, if isFP2 s then GOPS else GPOS, GHTT, GHTM],
                 dsd_replies := rest\<rparr>))"
  using assms by (cases u) (simp add: getStatus_def read_status_def sendCommand_def scanned_def)















lemmas dsd_eval = process_status_def cover_fp1_def cover_fp2_def cap_arrived_def moving_text_def
  light_section_def motor_section_def status_section_def heater_section_def mode_section_def
  IUSaveText_def IUResetSwitch_def dsd_publish_def dsd_two_polls_def DeepSkyDadFP_init_def
  cover_settled_def cap_waiting_def Let_def




subsection \<open>Switch requests\<close>

lemma one_hot_3:
  "one_hot 3 0 = [ISS_ON, ISS_OFF, ISS_OFF]"
  "one_hot 3 (Suc 0) = [ISS_OFF, ISS_ON, ISS_OFF]"
  "one_hot 3 2 = [ISS_OFF, ISS_OFF, ISS_ON]"
  by (simp_all add: one_hot_def numeral_eq_Suc)

lemma one_hot_2: "one_hot 2 0 = [ISS_ON, ISS_OFF]" "one_hot 2 (Suc 0) = [ISS_OFF, ISS_ON]"
  by (simp_all add: one_hot_def numeral_eq_Suc)

lemma names_nth:
  "heater_names ! 0 = ''OFF''" "heater_names ! Suc 0 = ''ON''" "heater_names ! 2 = ''ON2''"
  "stop_names ! 0 = ''ON''" "stop_names ! Suc 0 = ''OFF''"
  by (simp_all add: heater_names_def stop_names_def numeral_eq_Suc)

lemma reissue_heater:
  assumes "k < 3"
  shows "IUUpdateSwitch ISR_1OFMANY heater_names [(heater_names ! k, ISS_ON)] (one_hot 3 k) = one_hot 3 k"
    and "IUUpdateSwitch ISR_1OFMANY heater_names (zip heater_names (one_hot 3 k)) (one_hot 3 k) = one_hot 3 k"
proof -
  from assms consider "k = 0" | "k = Suc 0" | "k = 2" by arith
  then show "IUUpdateSwitch ISR_1OFMANY heater_names [(heater_names ! k, ISS_ON)] (one_hot 3 k) = one_hot 3 k"
    by cases (simp_all add: one_hot_3 names_nth IUUpdateSwitch_def heater_names_def IUResetSwitch_def count_on_def)
  from assms consider "k = 0" | "k = Suc 0" | "k = 2" by arith
  then show "IUUpdateSwitch ISR_1OFMANY heater_names (zip heater_names (one_hot 3 k)) (one_hot 3 k) = one_hot 3 k"
    by cases (simp_all add: one_hot_3 IUUpdateSwitch_def heater_names_def IUResetSwitch_def count_on_def)
qed

lemma ISNewSwitch_DSD_same:
  assumes "IUUpdateSwitch ISR_1OFMANY heater_names req (HeaterModeS s) = HeaterModeS s"
  shows "ISNewSwitch_DSD req s
           = Some (True, s\<lparr>HeaterModeSP_s := IPS_OK, dsd_pubs := dsd_pubs s @ [HeaterModeSP]\<rparr>)"
  using assms by (simp add: ISNewSwitch_DSD_def Let_def dsd_publish_def)

lemma ISNewSwitch_DSD_reissue:
  assumes "IUFindOnSwitchIndex (IUUpdateSwitch ISR_1OFMANY heater_names req (HeaterModeS s))
             = IUFindOnSwitchIndex (HeaterModeS s)"
  shows "ISNewSwitch_DSD req s
           = Some (True,
               s\<lparr>HeaterModeS := IUUpdateSwitch ISR_1OFMANY heater_names req (HeaterModeS s),
                  HeaterModeSP_s := IPS_OK, dsd_pubs := dsd_pubs s @ [HeaterModeSP]\<rparr>)"
  using assms by (simp add: ISNewSwitch_DSD_def Let_def dsd_publish_def)

lemma count_on_one_hot_3: "k < 3 \<Longrightarrow> count_on (one_hot 3 k) = 1"
proof -
  assume "k < 3"
  then consider "k = 0" | "k = Suc 0" | "k = 2" by arith
  then show ?thesis by cases (simp_all add: one_hot_3 count_on_def)
qed

lemma IUUpdateSwitch_selects:
  assumes "k < 3" and "assign_switches heater_names req [ISS_OFF, ISS_OFF, ISS_OFF] = Some (one_hot 3 k)"
  shows "IUUpdateSwitch ISR_1OFMANY heater_names req (one_hot 3 k) = one_hot 3 k"
proof -
  have len: "length (one_hot 3 k) = 3"
    by (simp add: one_hot_def)
  have "IUResetSwitch (one_hot 3 k) = replicate (length (one_hot 3 k)) ISS_OFF"
    by (simp add: IUResetSwitch_def map_replicate_const)
  also have "\<dots> = [ISS_OFF, ISS_OFF, ISS_OFF]"
    unfolding len by (simp add: numeral_eq_Suc)
  finally have "IUResetSwitch (one_hot 3 k) = [ISS_OFF, ISS_OFF, ISS_OFF]" .
  then show ?thesis
    using assms by (simp add: IUUpdateSwitch_def count_on_one_hot_3)
qed

lemma ISNewSwitch_FS2_same:
  assumes "j < 2" and "IUFindOnSwitchIndex (StopAfterParkS f) = int j"
    and "IUFindOnSwitchName rq = Some (stop_names ! j)"
  shows "ISNewSwitch_FS2 rq f
           = Some (True, f\<lparr>StopAfterParkSP_s := IPS_IDLE, fs2_pubs := fs2_pubs f @ [StopAfterParkSP]\<rparr>)"
  using assms by (simp add: ISNewSwitch_FS2_def Let_def fs2_publish_def stop_names_def)

text \<open>
  C5, as the claim states it, fails on the FS-2: re-issuing the selection that is
  already on (member OFF of stop-after-park) sets the property state to IDLE, not OK.
\<close>

theorem reissue_FS2_counterexample:
  "StopAfterParkS fs2_ok = [ISS_OFF, ISS_ON]
   \<and> StopAfterParkSP_s fs2_ok = IPS_OK
   \<and> IUFindOnSwitchName [(''OFF'', ISS_ON)] = Some ''OFF''
   \<and> ISNewSwitch_FS2 [(''OFF'', ISS_ON)] fs2_ok
       = Some (True, fs2_ok\<lparr>StopAfterParkSP_s := IPS_IDLE, fs2_pubs := [StopAfterParkSP]\<rparr>)"
  by (simp add: fs2_ok_def LX200FS2_init_def ISNewSwitch_FS2_def Let_def fs2_publish_def
        stop_names_def)

text \<open>
  C5, as amended. Re-issuing the selection that is already on short-circuits in both
  drivers: the handler returns true, publishes the property once and sends nothing to
  the device; the property state it sets is OK for the heater mode of the flap panel
  and IDLE for stop-after-park of the FS-2. For the heater mode this holds of every
  request after which the member that is on is the member that was on before; in
  particular, when member \<open>k\<close> alone is on and the request, whatever members it lists
  and in whatever order, turns on member \<open>k\<close> alone, the members stay as they were.
  For stop-after-park it holds of every request whose first member turned on is the
  member that is on; the members stay as they were.
\<close>

theorem reissue_short_circuits:
  "(IUFindOnSwitchIndex (IUUpdateSwitch ISR_1OFMANY heater_names req (HeaterModeS s))
      = IUFindOnSwitchIndex (HeaterModeS s) \<longrightarrow>
      ISNewSwitch_DSD req s
        = Some (True,
            s\<lparr>HeaterModeS := IUUpdateSwitch ISR_1OFMANY heater_names req (HeaterModeS s),
               HeaterModeSP_s := IPS_OK, dsd_pubs := dsd_pubs s @ [HeaterModeSP]\<rparr>))
   \<and> (k < 3 \<and> HeaterModeS s = one_hot 3 k
        \<and> assign_switches heater_names req [ISS_OFF, ISS_OFF, ISS_OFF] = Some (one_hot 3 k) \<longrightarrow>
      ISNewSwitch_DSD req s
        = Some (True, s\<lparr>HeaterModeSP_s := IPS_OK, dsd_pubs := dsd_pubs s @ [HeaterModeSP]\<rparr>))
   \<and> (j < 2 \<and> IUFindOnSwitchIndex (StopAfterParkS f) = int j
        \<and> IUFindOnSwitchName rq = Some (stop_names ! j) \<longrightarrow>
      ISNewSwitch_FS2 rq f
        = Some (True, f\<lparr>StopAfterParkSP_s := IPS_IDLE, fs2_pubs := fs2_pubs f @ [StopAfterParkSP]\<rparr>))"
proof -
  have gen: "IUFindOnSwitchIndex (IUUpdateSwitch ISR_1OFMANY heater_names req (HeaterModeS s))
      = IUFindOnSwitchIndex (HeaterModeS s) \<longrightarrow>
      ISNewSwitch_DSD req s
        = Some (True,
            s\<lparr>HeaterModeS := IUUpdateSwitch ISR_1OFMANY heater_names req (HeaterModeS s),
               HeaterModeSP_s := IPS_OK, dsd_pubs := dsd_pubs s @ [HeaterModeSP]\<rparr>)"
    using ISNewSwitch_DSD_reissue [of req s] by blast
  have sel: "k < 3 \<and> HeaterModeS s = one_hot 3 k
        \<and> assign_switches heater_names req [ISS_OFF, ISS_OFF, ISS_OFF] = Some (one_hot 3 k) \<longrightarrow>
      ISNewSwitch_DSD req s
        = Some (True, s\<lparr>HeaterModeSP_s := IPS_OK, dsd_pubs := dsd_pubs s @ [HeaterModeSP]\<rparr>)"
    using IUUpdateSwitch_selects [of k req] ISNewSwitch_DSD_same [of req s] by auto
  have fs2: "j < 2 \<and> IUFindOnSwitchIndex (StopAfterParkS f) = int j
        \<and> IUFindOnSwitchName rq = Some (stop_names ! j) \<longrightarrow>
      ISNewSwitch_FS2 rq f
        = Some (True, f\<lparr>StopAfterParkSP_s := IPS_IDLE, fs2_pubs := fs2_pubs f @ [StopAfterParkSP]\<rparr>)"
    using ISNewSwitch_FS2_same [of j f rq] by blast
  from gen sel fs2 show ?thesis by (intro conjI)
qed

theorem reissue_short_circuits_witness:
  "ISNewSwitch_DSD [(''ON2'', ISS_OFF), (''ON'', ISS_ON)] dsd_heater_on
     = Some (True, dsd_heater_on\<lparr>HeaterModeSP_s := IPS_OK, dsd_pubs := [HeaterModeSP]\<rparr>)
   \<and> ISNewSwitch_DSD [(''ON'', ISS_ON)] dsd_heater_on
     = Some (True, dsd_heater_on\<lparr>HeaterModeSP_s := IPS_OK, dsd_pubs := [HeaterModeSP]\<rparr>)
   \<and> dsd_sent dsd_heater_on = []
   \<and> ISNewSwitch_FS2 [(''ON'', ISS_OFF), (''OFF'', ISS_ON)] fs2_ok
     = Some (True, fs2_ok\<lparr>StopAfterParkSP_s := IPS_IDLE, fs2_pubs := [StopAfterParkSP]\<rparr>)
   \<and> fs2_sent fs2_ok = []"
proof -
  note t1 = reissue_short_circuits [of "[(''ON2'', ISS_OFF), (''ON'', ISS_ON)]" dsd_heater_on 1 1
              fs2_ok "[(''ON'', ISS_OFF), (''OFF'', ISS_ON)]"]
  note t2 = reissue_short_circuits [of "[(''ON'', ISS_ON)]" dsd_heater_on 1 1
              fs2_ok "[(''ON'', ISS_OFF), (''OFF'', ISS_ON)]"]
  have k: "(1::nat) < 3" and j: "(1::nat) < 2"
    by simp_all
  have sw: "HeaterModeS dsd_heater_on = one_hot 3 1"
    by (simp add: dsd_heater_on_def DeepSkyDadFP_init_def)
  have asg: "assign_switches heater_names [(''ON2'', ISS_OFF), (''ON'', ISS_ON)]
               [ISS_OFF, ISS_OFF, ISS_OFF] = Some (one_hot 3 1)"
    by (simp add: heater_names_def one_hot_def numeral_eq_Suc)
  have w1: "ISNewSwitch_DSD [(''ON2'', ISS_OFF), (''ON'', ISS_ON)] dsd_heater_on
      = Some (True, dsd_heater_on\<lparr>HeaterModeSP_s := IPS_OK,
                                   dsd_pubs := dsd_pubs dsd_heater_on @ [HeaterModeSP]\<rparr>)"
    using t1 k sw asg by blast
  have upd: "IUUpdateSwitch ISR_1OFMANY heater_names [(''ON'', ISS_ON)] (HeaterModeS dsd_heater_on)
      = HeaterModeS dsd_heater_on"
    by (simp add: dsd_heater_on_def DeepSkyDadFP_init_def one_hot_def numeral_eq_Suc
          IUUpdateSwitch_def heater_names_def IUResetSwitch_def count_on_def)
  then have same: "IUFindOnSwitchIndex
        (IUUpdateSwitch ISR_1OFMANY heater_names [(''ON'', ISS_ON)] (HeaterModeS dsd_heater_on))
      = IUFindOnSwitchIndex (HeaterModeS dsd_heater_on)"
    by simp
  have w2: "ISNewSwitch_DSD [(''ON'', ISS_ON)] dsd_heater_on
      = Some (True,
          dsd_heater_on\<lparr>HeaterModeS := IUUpdateSwitch ISR_1OFMANY heater_names [(''ON'', ISS_ON)]
                                           (HeaterModeS dsd_heater_on),
                        HeaterModeSP_s := IPS_OK,
                        dsd_pubs := dsd_pubs dsd_heater_on @ [HeaterModeSP]\<rparr>)"
    using t2 same by blast
  have idx: "IUFindOnSwitchIndex (StopAfterParkS fs2_ok) = int 1"
    and nm: "IUFindOnSwitchName [(''ON'', ISS_OFF), (''OFF'', ISS_ON)] = Some (stop_names ! 1)"
    by (simp_all add: fs2_ok_def LX200FS2_init_def stop_names_def)
  have w3: "ISNewSwitch_FS2 [(''ON'', ISS_OFF), (''OFF'', ISS_ON)] fs2_ok
      = Some (True, fs2_ok\<lparr>StopAfterParkSP_s := IPS_IDLE,
                             fs2_pubs := fs2_pubs fs2_ok @ [StopAfterParkSP]\<rparr>)"
    using t1 j idx nm by blast
  have e: "dsd_pubs dsd_heater_on = []" "dsd_sent dsd_heater_on = []"
    "fs2_pubs fs2_ok = []" "fs2_sent fs2_ok = []"
    by (simp_all add: dsd_heater_on_def DeepSkyDadFP_init_def fs2_ok_def LX200FS2_init_def)
  show ?thesis
    unfolding w1 w2 w3 upd e by simp
qed

subsection \<open>Roll-back of the heater mode\<close>

lemma assign_switches_length:
  "assign_switches names req sw = Some sw' \<Longrightarrow> length sw' = length sw"
  by (induction req arbitrary: sw) (auto split: option.splits)

lemma IUUpdateSwitch_length: "length (IUUpdateSwitch rule names req sw) = length sw"
  by (auto simp: IUUpdateSwitch_def IUResetSwitch_def split: option.splits
        dest: assign_switches_length)

lemma reset_one_hot: "(IUResetSwitch sw)[k := ISS_ON] = one_hot (length sw) k"
  by (simp add: IUResetSwitch_def one_hot_def map_replicate_const)

lemma find_one_hot_3: "k < 3 \<Longrightarrow> IUFindOnSwitchIndex (one_hot 3 k) = int k"
proof -
  assume "k < 3"
  then consider "k = 0" | "k = Suc 0" | "k = 2" by arith
  then show ?thesis by cases (simp_all add: one_hot_3)
qed

lemma sendCommand_fails:
  "dsd_fails s \<Longrightarrow>
     sendCommand c s = (NoAnswer, s\<lparr>dsd_sent := dsd_sent s @ [c], dsd_replies := tl (dsd_replies s)\<rparr>)"
  by (auto simp: sendCommand_def dsd_fails_def split: list.splits)

text \<open>
  Where a member is on, the roll-back works. Let member \<open>k\<close> of the heater mode be the
  one that is on, let the request select another mode, and let the mode command fail.
  Then the handler returns false, the property state is ALERT, the property is
  published once, and the members are as they were before the request.
\<close>

lemma rollback_with_member_on:
  assumes "k < 3" and "HeaterModeS s = one_hot 3 k"
    and "IUFindOnSwitchIndex (IUUpdateSwitch ISR_1OFMANY heater_names req (HeaterModeS s)) \<noteq> int k"
    and "dsd_fails s"
  shows "ISNewSwitch_DSD req s
           = Some (False,
               s\<lparr>HeaterModeSP_s := IPS_ALERT,
                  dsd_sent := dsd_sent s
                    @ [SHTM (IUFindOnSwitchIndex (IUUpdateSwitch ISR_1OFMANY heater_names req (HeaterModeS s)))],
                  dsd_pubs := dsd_pubs s @ [HeaterModeSP],
                  dsd_replies := tl (dsd_replies s)\<rparr>)"
proof -
  let ?sw = "IUUpdateSwitch ISR_1OFMANY heater_names req (HeaterModeS s)"
  let ?s1 = "s\<lparr>HeaterModeS := ?sw\<rparr>"
  have cur: "IUFindOnSwitchIndex (HeaterModeS s) = int k"
    using assms(1,2) by (simp add: find_one_hot_3)
  have len: "length ?sw = 3"
    using assms(2) by (simp add: IUUpdateSwitch_length one_hot_def)
  have fails: "dsd_fails ?s1"
    using assms(4) by (simp add: dsd_fails_def)
  have rolled: "(IUResetSwitch ?sw)[k := ISS_ON] = HeaterModeS s"
    using len assms(2) by (simp add: reset_one_hot)
  show ?thesis
    using cur assms(1,3) len rolled
    by (simp add: ISNewSwitch_DSD_def Let_def sendCommand_fails [OF fails] dsd_publish_def)
qed

text \<open>
  C10 at its failing input. After \<open>initProperties\<close> no member of the heater mode is on,
  and a poll that reads a heater mode other than 0, 1 or 2 leaves none on either. A
  request that selects ON then finds \<open>current_mode\<close> = -1; when the mode command fails,
  the roll-back indexes \<open>HeaterModeS[-1]\<close>, outside the array, where it should publish
  ALERT with the selection as it was and return false.
\<close>

theorem heater_rollback_out_of_bounds:
  "HeaterModeS DeepSkyDadFP_init = [ISS_OFF, ISS_OFF, ISS_OFF]
   \<and> IUFindOnSwitchIndex (HeaterModeS DeepSkyDadFP_init) = - 1
   \<and> dsd_fails DeepSkyDadFP_init
   \<and> ISNewSwitch_DSD [(''ON'', ISS_ON)] DeepSkyDadFP_init = None
   \<and> fst (getStatus (0, 0, 0, 0, 0) (dsd_two_polls [0, 0, 0, 20, 7] []))
   \<and> HeaterModeS (snd (getStatus (0, 0, 0, 0, 0) (dsd_two_polls [0, 0, 0, 20, 7] [])))
       = [ISS_OFF, ISS_OFF, ISS_OFF]
   \<and> dsd_fails (snd (getStatus (0, 0, 0, 0, 0) (dsd_two_polls [0, 0, 0, 20, 7] [])))
   \<and> ISNewSwitch_DSD [(''ON'', ISS_ON)]
        (snd (getStatus (0, 0, 0, 0, 0) (dsd_two_polls [0, 0, 0, 20, 7] []))) = None"
proof -
  have d: "dsd_replies (dsd_two_polls [0, 0, 0, 20, 7] [])
      = Number 0 # Number 0 # Number 0 # Number 20 # Number 7 # []"
    by (simp add: dsd_two_polls_def)
  have u: "IUUpdateSwitch ISR_1OFMANY heater_names [(''ON'', ISS_ON)] [ISS_OFF, ISS_OFF, ISS_OFF]
      = [ISS_OFF, ISS_ON, ISS_OFF]"
    by (simp add: IUUpdateSwitch_def heater_names_def IUResetSwitch_def count_on_def)
  have init: "HeaterModeS DeepSkyDadFP_init = [ISS_OFF, ISS_OFF, ISS_OFF]"
    "dsd_fails DeepSkyDadFP_init"
    by (simp_all add: DeepSkyDadFP_init_def dsd_fails_def)
  have none1: "ISNewSwitch_DSD [(''ON'', ISS_ON)] DeepSkyDadFP_init = None"
    by (simp add: ISNewSwitch_DSD_def Let_def init u sendCommand_def DeepSkyDadFP_init_def)
  have polled: "HeaterModeS (snd (getStatus (0, 0, 0, 0, 0) (dsd_two_polls [0, 0, 0, 20, 7] [])))
       = [ISS_OFF, ISS_OFF, ISS_OFF]"
    "dsd_replies (snd (getStatus (0, 0, 0, 0, 0) (dsd_two_polls [0, 0, 0, 20, 7] []))) = []"
    unfolding getStatus_process [OF d] snd_conv by (simp_all add: dsd_eval)
  have none2: "ISNewSwitch_DSD [(''ON'', ISS_ON)]
        (snd (getStatus (0, 0, 0, 0, 0) (dsd_two_polls [0, 0, 0, 20, 7] []))) = None"
    by (simp add: ISNewSwitch_DSD_def Let_def polled u sendCommand_def)
  show ?thesis
    using init none1 polled none2 getStatus_process [OF d, of "(0, 0, 0, 0, 0)"]
    by (simp add: dsd_fails_def)
qed

end
